theory Spec2Isabelle
  imports Main
begin

section \<open>JSON values\<close>

text \<open>
  Request bodies, recipes and basket contents are free-form JSON. Numbers are kept in an
  open carrier \<open>'n\<close> with a zero: nothing in the server computes with them, they are
  only compared, tested for truthiness and echoed. A value that may be \<open>undefined\<close> (a
  missing property) is an option, with \<open>None\<close> for \<open>undefined\<close>.
\<close>

datatype 'n json =
    JNull
  | JBool bool
  | JNum 'n
  | JStr string
  | JArr "'n json list"
  | JObj "(string \<times> 'n json) list"

type_synonym 'n jsval = "'n json option"

text \<open>
  \<open>express.json()\<close> in its default (strict) mode hands the handlers an object or an
  array as \<open>req.body\<close>, never a primitive and never \<open>null\<close>.
\<close>

datatype 'n body =
    Obj "(string \<times> 'n json) list"
  | Arr "'n json list"

fun json_of :: "'n body \<Rightarrow> 'n json" where
  "json_of (Obj kvs) = JObj kvs"
| "json_of (Arr xs) = JArr xs"

text \<open>
  The own property \<open>id\<close> or \<open>basket\<close> of a body: the property of an object, and none
  on an array (whose own properties are its indices and \<open>length\<close>). Nothing ever puts an
  \<open>id\<close> on a prototype, so \<open>b.id\<close> is this read; \<open>b.basket\<close> is \<open>body_basket\<close> below.
\<close>

fun get_prop :: "'n body \<Rightarrow> string \<Rightarrow> 'n jsval" where
  "get_prop (Obj kvs) k = map_of kvs k"
| "get_prop (Arr xs) k = None"

text \<open>
  The operator \<open>===\<close> between a property of a stored recipe and a property of the body
  of the current request. Primitives are compared by value. Arrays and objects are
  compared by reference, and a freshly parsed body never shares a reference with a stored
  value, so the comparison is false for them.
\<close>

fun strict_eq_json :: "'n json \<Rightarrow> 'n json \<Rightarrow> bool" where
  "strict_eq_json JNull JNull = True"
| "strict_eq_json (JBool a) (JBool b) = (a = b)"
| "strict_eq_json (JNum a) (JNum b) = (a = b)"
| "strict_eq_json (JStr a) (JStr b) = (a = b)"
| "strict_eq_json _ _ = False"

fun strict_eq :: "'n jsval \<Rightarrow> 'n jsval \<Rightarrow> bool" where
  "strict_eq None None = True"
| "strict_eq (Some a) (Some b) = strict_eq_json a b"
| "strict_eq _ _ = False"

text \<open>
  Truthiness, as \<open>!x\<close> tests it: \<open>undefined\<close>, \<open>null\<close>, \<open>false\<close>, \<open>0\<close> and the empty
  string are falsy, every array and object is truthy.
\<close>

fun truthy_json :: "'n::zero json \<Rightarrow> bool" where
  "truthy_json JNull = False"
| "truthy_json (JBool b) = b"
| "truthy_json (JNum n) = (n \<noteq> 0)"
| "truthy_json (JStr s) = (s \<noteq> [])"
| "truthy_json (JArr xs) = True"
| "truthy_json (JObj kvs) = True"

fun truthy :: "'n::zero jsval \<Rightarrow> bool" where
  "truthy None = False"
| "truthy (Some v) = truthy_json v"

fun is_object :: "'n json \<Rightarrow> bool" where
  "is_object (JArr xs) = True"
| "is_object (JObj kvs) = True"
| "is_object _ = False"

text \<open>
  A read of one of the properties \<open>id\<close>, \<open>name\<close>, \<open>passwordHash\<close> off a JSON value that is
  not \<open>null\<close>: the own property of an object, \<open>undefined\<close> on anything else.
\<close>

fun json_prop :: "'n json \<Rightarrow> string \<Rightarrow> 'n jsval" where
  "json_prop (JObj kvs) k = map_of kvs k"
| "json_prop _ k = None"

text \<open>
  An object literal with possibly \<open>undefined\<close> values, as \<open>JSON.stringify\<close> writes it:
  the \<open>undefined\<close> ones are left out.
\<close>

fun defined_fields :: "(string \<times> 'n jsval) list \<Rightarrow> (string \<times> 'n json) list" where
  "defined_fields [] = []"
| "defined_fields ((k, None) # kvs) = defined_fields kvs"
| "defined_fields ((k, Some v) # kvs) = (k, v) # defined_fields kvs"

text \<open>\<open>Array.prototype.findIndex\<close>: the first index whose element satisfies \<open>p\<close>, or \<open>-1\<close>.\<close>

fun findIndex :: "('a \<Rightarrow> bool) \<Rightarrow> 'a list \<Rightarrow> int" where
  "findIndex p [] = - 1"
| "findIndex p (x # xs) =
     (if p x then 0
      else (let i = findIndex p xs in if i < 0 then - 1 else i + 1))"

text \<open>\<open>String.prototype.split\<close> with a one-character separator; \<open>''''\<close> splits into \<open>['''']\<close>.\<close>

fun js_split :: "char \<Rightarrow> string \<Rightarrow> string list" where
  "js_split c [] = [[]]"
| "js_split c (x # xs) =
     (if x = c then [] # js_split c xs
      else (case js_split c xs of
              [] \<Rightarrow> [[x]]
            | s # ss \<Rightarrow> (x # s) # ss))"

text \<open>An array read \<open>xs[i]\<close>, which is \<open>undefined\<close> out of range.\<close>

definition js_index :: "'a list \<Rightarrow> nat \<Rightarrow> 'a option" where
  "js_index xs i = (if i < length xs then Some (xs ! i) else None)"


section \<open>Data model\<close>

record user =
  user_id :: string
  passwordHash :: string
  user_name :: string

record 'n session =
  recipes :: "'n body list"
  basket :: "'n jsval"

text \<open>
  The two tables \<open>users\<close> and \<open>sessions\<close> are plain JavaScript objects used as
  dictionaries. The fields \<open>users\<close> and \<open>sessions\<close> are their own properties, each a
  well-formed record with all its properties as own properties. A read \<open>table[key]\<close>
  also finds what every plain object inherits from \<open>Object.prototype\<close>: the built-in
  members listed in \<open>inherited_names\<close>, and a \<open>basket\<close> property once a request has put
  one there. \<open>inherited_basket\<close> holds the \<open>basket\<close> properties that requests have put on
  the built-in members, keyed by the member's name; under \<open>__proto__\<close> the member is
  \<open>Object.prototype\<close> itself. \<open>sessions_file\<close> is the snapshot that \<open>saveSessions\<close> last
  wrote to \<open>sessions.json\<close>, kept as the table that was serialised; a write that fails is
  not modelled.
\<close>

record 'n server =
  users :: "string \<rightharpoonup> user"
  sessions :: "string \<rightharpoonup> 'n session"
  sessions_file :: "string \<rightharpoonup> 'n session"
  inherited_basket :: "string \<rightharpoonup> 'n jsval"

record 'n response =
  status :: nat
  body :: "'n jsval"

text \<open>The object given to \<open>jwt.sign\<close>, and what \<open>jwt.verify\<close> decodes (\<open>req.user\<close>).\<close>

record payload =
  userId :: string
  username :: string

record claims = payload +
  iat :: nat
  exp :: nat

datatype jwt_error = JsonWebTokenError | TokenExpiredError | NotBeforeError

text \<open>
  Why a handler sent no response: it threw a \<open>TypeError\<close> (a property read or a call on
  \<open>undefined\<close>), \<open>bcrypt.compareSync\<close> threw its \<open>Error\<close>, or the request took an object
  for its session or user that this model does not follow (\<open>Unmodelled\<close>, see
  \<open>lookup_session\<close> and \<open>login\<close>); the state returned with \<open>Unmodelled\<close> says nothing
  about the server.
\<close>

datatype no_response = TypeError | Error | Unmodelled

text \<open>
  What the server takes from outside its own source: the signing secret read from the
  environment, the two calls into \<open>jsonwebtoken\<close>, \<open>bcrypt.compareSync\<close> on two
  strings and \<open>String.prototype.toLowerCase\<close>. \<open>jwt_sign p secret d t\<close> signs \<open>p\<close> at
  time \<open>t\<close> (seconds) with lifetime \<open>d\<close> seconds; \<open>jwt_verify token secret t\<close> verifies
  at time \<open>t\<close>. The handlers are written against any such environment.
\<close>

record env =
  JWT_SECRET :: string
  jwt_sign :: "payload \<Rightarrow> string \<Rightarrow> nat \<Rightarrow> nat \<Rightarrow> string"
  jwt_verify :: "string \<Rightarrow> string \<Rightarrow> nat \<Rightarrow> jwt_error + claims"
  bcrypt_compareSync :: "string \<Rightarrow> string \<Rightarrow> bool"
  toLowerCase :: "string \<Rightarrow> string"

text \<open>
  \<open>bcrypt.compareSync(s, hash)\<close> of \<open>bcryptjs\<close> begins by throwing an \<open>Error\<close> unless both
  arguments are strings.
\<close>

fun compareSync :: "env \<Rightarrow> 'n jsval \<Rightarrow> 'n jsval \<Rightarrow> no_response + bool" where
  "compareSync E (Some (JStr s)) (Some (JStr hash)) = Inr (bcrypt_compareSync E s hash)"
| "compareSync E _ _ = Inl Error"

text \<open>\<open>expiresIn: '7d'\<close>, in seconds.\<close>

definition expiresIn :: nat where
  "expiresIn = 7 * 24 * 60 * 60"

definition error_body :: "string \<Rightarrow> 'n jsval" where
  "error_body msg = Some (JObj [(''error'', JStr msg)])"

definition success_body :: "'n jsval" where
  "success_body = Some (JObj [(''success'', JBool True)])"


section \<open>Reading the tables\<close>

text \<open>
  The property names of \<open>Object.prototype\<close>. Under each of them a plain object has a
  truthy value: a built-in function, and under \<open>__proto__\<close> the prototype itself.
\<close>

definition inherited_names :: "string list" where
  "inherited_names =
     [''constructor'', ''__defineGetter__'', ''__defineSetter__'', ''hasOwnProperty'',
      ''__lookupGetter__'', ''__lookupSetter__'', ''isPrototypeOf'',
      ''propertyIsEnumerable'', ''toString'', ''valueOf'', ''__proto__'',
      ''toLocaleString'']"

text \<open>
  \<open>Object.prototype.basket\<close>, the \<open>basket\<close> that every object without one of its own
  reads; and \<open>req.body.basket\<close>.
\<close>

definition proto_basket :: "'n server \<Rightarrow> 'n jsval" where
  "proto_basket st = (case inherited_basket st ''__proto__'' of None \<Rightarrow> None | Some x \<Rightarrow> x)"

definition body_basket :: "'n server \<Rightarrow> 'n body \<Rightarrow> 'n jsval" where
  "body_basket st b =
     (case get_prop b ''basket'' of None \<Rightarrow> proto_basket st | Some x \<Rightarrow> Some x)"

text \<open>
  What \<open>sessions[userId]\<close> evaluates to when it is truthy: a session record of the table,
  the built-in member inherited under the name, or (under the key \<open>basket\<close>) the value
  that a request has put on \<open>Object.prototype\<close>.
\<close>

datatype 'n session_ref =
    Record "'n session"
  | Builtin string
  | Stray "'n json"

definition lookup_session :: "'n::zero server \<Rightarrow> string \<Rightarrow> 'n session_ref option" where
  "lookup_session st uid =
     (case sessions st uid of
        Some s \<Rightarrow> Some (Record s)
      | None \<Rightarrow>
          if uid \<in> set inherited_names then Some (Builtin uid)
          else if uid = ''basket'' \<and> truthy (proto_basket st)
          then map_option Stray (proto_basket st)
          else None)"

text \<open>
  The three properties that the routes read off \<open>users[key]\<close>. A built-in function has
  a \<open>name\<close> (the constructor's is \<open>Object\<close>) and neither \<open>id\<close> nor \<open>passwordHash\<close>.
\<close>

record 'n user_view =
  view_id :: "'n jsval"
  view_hash :: "'n jsval"
  view_name :: "'n jsval"

definition builtin_name :: "string \<Rightarrow> 'n jsval" where
  "builtin_name k =
     (if k = ''__proto__'' then None
      else if k = ''constructor'' then Some (JStr ''Object'')
      else Some (JStr k))"

definition lookup_user :: "'n::zero server \<Rightarrow> string \<Rightarrow> 'n user_view option" where
  "lookup_user st k =
     (case users st k of
        Some u \<Rightarrow>
          Some \<lparr>view_id = Some (JStr (user_id u)), view_hash = Some (JStr (passwordHash u)),
                view_name = Some (JStr (user_name u))\<rparr>
      | None \<Rightarrow>
          if k \<in> set inherited_names
          then Some \<lparr>view_id = None, view_hash = None, view_name = builtin_name k\<rparr>
          else if k = ''basket'' \<and> truthy (proto_basket st)
          then map_option
                 (\<lambda>v. \<lparr>view_id = json_prop v ''id'', view_hash = json_prop v ''passwordHash'',
                       view_name = json_prop v ''name''\<rparr>)
                 (proto_basket st)
          else None)"


section \<open>Session store\<close>

definition saveSessions :: "'n server \<Rightarrow> 'n server" where
  "saveSessions st = st\<lparr>sessions_file := sessions st\<rparr>"

definition getUserSession ::
  "string \<Rightarrow> 'n::zero server \<Rightarrow> 'n session_ref \<times> 'n server" where
  "getUserSession uid st =
     (case lookup_session st uid of
        None \<Rightarrow>
          (let fresh = \<lparr>recipes = [], basket = Some (JArr [])\<rparr>
           in (Record fresh, saveSessions (st\<lparr>sessions := (sessions st)(uid \<mapsto> fresh)\<rparr>)))
      | Some session \<Rightarrow> (session, st))"

text \<open>
  \<open>getUserSession\<close> returns a reference, so an assignment to a property of the returned
  object changes the object it refers to: a record of the table (\<open>put_session\<close>), or a
  built-in member (\<open>put_inherited\<close>).
\<close>

definition put_session :: "string \<Rightarrow> 'n session \<Rightarrow> 'n server \<Rightarrow> 'n server" where
  "put_session uid s st = st\<lparr>sessions := (sessions st)(uid \<mapsto> s)\<rparr>"

definition put_inherited :: "string \<Rightarrow> 'n jsval \<Rightarrow> 'n server \<Rightarrow> 'n server" where
  "put_inherited k x st = st\<lparr>inherited_basket := (inherited_basket st)(k \<mapsto> x)\<rparr>"

text \<open>
  \<open>session.basket\<close> on a built-in member: its own \<open>basket\<close> if a request has put one
  there, else the one of \<open>Object.prototype\<close>.
\<close>

definition builtin_basket :: "'n server \<Rightarrow> string \<Rightarrow> 'n jsval" where
  "builtin_basket st k =
     (case inherited_basket st k of None \<Rightarrow> proto_basket st | Some x \<Rightarrow> x)"


section \<open>Request gate\<close>

definition bearer_token :: "string option \<Rightarrow> string option" where
  "bearer_token authHeader =
     (case authHeader of
        None \<Rightarrow> None
      | Some h \<Rightarrow> if h = [] then Some [] else js_index (js_split CHR '' '' h) 1)"

definition authenticateToken ::
  "env \<Rightarrow> nat \<Rightarrow> string option \<Rightarrow> 'n response + claims" where
  "authenticateToken E now authHeader =
     (case bearer_token authHeader of
        None \<Rightarrow> Inl \<lparr>status = 401, body = error_body ''Access denied. No token provided.''\<rparr>
      | Some token \<Rightarrow>
          if token = [] then
            Inl \<lparr>status = 401, body = error_body ''Access denied. No token provided.''\<rparr>
          else
            (case jwt_verify E token (JWT_SECRET E) now of
               Inl err \<Rightarrow> Inl \<lparr>status = 403, body = error_body ''Invalid or expired token''\<rparr>
             | Inr u \<Rightarrow> Inr u))"


section \<open>Routes\<close>

text \<open>The \<open>jwt.sign\<close> call of the login route: the server's secret, seven days.\<close>

definition issue :: "env \<Rightarrow> nat \<Rightarrow> payload \<Rightarrow> string" where
  "issue E now p = jwt_sign E p (JWT_SECRET E) expiresIn now"

text \<open>
  The login route, on the \<open>username\<close> and \<open>password\<close> of the body, which may be any JSON
  value or missing. \<open>username.toLowerCase()\<close> throws on a truthy value that is not a
  string. A token is issued for \<open>user.id\<close>; the model follows that when the id is a
  string, as it is for every record of the table.
\<close>

definition login ::
  "env \<Rightarrow> nat \<Rightarrow> 'n::zero server \<Rightarrow> 'n jsval \<Rightarrow> 'n jsval \<Rightarrow> no_response + 'n response" where
  "login E now st uname password =
     (if \<not> truthy uname \<or> \<not> truthy password then
        Inr \<lparr>status = 400, body = error_body ''Username and password required''\<rparr>
      else
        (case uname of
           Some (JStr un) \<Rightarrow>
             (case lookup_user st (toLowerCase E un) of
                None \<Rightarrow> Inr \<lparr>status = 401, body = error_body ''Invalid credentials''\<rparr>
              | Some u \<Rightarrow>
                  (case compareSync E password (view_hash u) of
                     Inl thrown \<Rightarrow> Inl thrown
                   | Inr validPassword \<Rightarrow>
                       if \<not> validPassword then
                         Inr \<lparr>status = 401, body = error_body ''Invalid credentials''\<rparr>
                       else
                         (case view_id u of
                            Some (JStr uid) \<Rightarrow>
                              (let token = issue E now \<lparr>userId = uid, username = uid\<rparr>
                               in Inr \<lparr>status = 200,
                                       body = Some (JObj [(''token'', JStr token),
                                                (''user'', JObj (defined_fields
                                                   [(''id'', view_id u),
                                                    (''name'', view_name u)]))])\<rparr>)
                          | _ \<Rightarrow> Inl Unmodelled)))
         | _ \<Rightarrow> Inl TypeError))"

text \<open>
  The handlers behind the gate. Each returns the response, or why there is none, and the
  server state it leaves. A handler whose session is a JSON object or array found on
  \<open>Object.prototype\<close> would change that shared object in place; the model stops there
  (\<open>Unmodelled\<close>). A primitive found there has no properties of its own: reads go to the
  prototype and an assignment to it is dropped.
\<close>

definition get_verify ::
  "claims \<Rightarrow> 'n::zero server \<Rightarrow> (no_response + 'n response) \<times> 'n server" where
  "get_verify u st =
     (case lookup_user st (userId u) of
        None \<Rightarrow> (Inl TypeError, st)
      | Some usr \<Rightarrow>
          (Inr \<lparr>status = 200,
                body = Some (JObj [(''user'', JObj (defined_fields
                                                    [(''id'', view_id usr),
                                                     (''name'', view_name usr)]))])\<rparr>, st))"

definition get_recipes ::
  "claims \<Rightarrow> 'n::zero server \<Rightarrow> (no_response + 'n response) \<times> 'n server" where
  "get_recipes u st =
     (let (session, st1) = getUserSession (userId u) st
      in case session of
           Record s \<Rightarrow>
             (Inr \<lparr>status = 200, body = Some (JArr (map json_of (recipes s)))\<rparr>, st1)
         | Builtin k \<Rightarrow> (Inr \<lparr>status = 200, body = None\<rparr>, st1)
         | Stray v \<Rightarrow>
             if is_object v then (Inl Unmodelled, st1)
             else (Inr \<lparr>status = 200, body = None\<rparr>, st1))"

definition post_recipes ::
  "claims \<Rightarrow> 'n body \<Rightarrow> 'n::zero server \<Rightarrow> (no_response + 'n response) \<times> 'n server" where
  "post_recipes u recipe st =
     (let (session, st1) = getUserSession (userId u) st
      in case session of
           Record s \<Rightarrow>
             (let existingIndex =
                    findIndex (\<lambda>r. strict_eq (get_prop r ''id'') (get_prop recipe ''id''))
                      (recipes s);
                  s' =
                    (if existingIndex \<ge> 0
                     then s\<lparr>recipes := (recipes s)[nat existingIndex := recipe]\<rparr>
                     else s\<lparr>recipes := recipes s @ [recipe]\<rparr>);
                  st2 = saveSessions (put_session (userId u) s' st1)
              in (Inr \<lparr>status = 200,
                        body = Some (JObj [(''success'', JBool True),
                                 (''recipe'', json_of recipe)])\<rparr>,
                  st2))
         | Builtin k \<Rightarrow> (Inl TypeError, st1)
         | Stray v \<Rightarrow> if is_object v then (Inl Unmodelled, st1) else (Inl TypeError, st1))"

definition delete_recipe ::
  "claims \<Rightarrow> string \<Rightarrow> 'n::zero server \<Rightarrow> (no_response + 'n response) \<times> 'n server" where
  "delete_recipe u rid st =
     (let (session, st1) = getUserSession (userId u) st
      in case session of
           Record s \<Rightarrow>
             (let s' =
                    s\<lparr>recipes :=
                      filter (\<lambda>r. \<not> strict_eq (get_prop r ''id'') (Some (JStr rid)))
                        (recipes s)\<rparr>;
                  st2 = saveSessions (put_session (userId u) s' st1)
              in (Inr \<lparr>status = 200, body = success_body\<rparr>, st2))
         | Builtin k \<Rightarrow> (Inl TypeError, st1)
         | Stray v \<Rightarrow> if is_object v then (Inl Unmodelled, st1) else (Inl TypeError, st1))"

definition get_basket ::
  "claims \<Rightarrow> 'n::zero server \<Rightarrow> (no_response + 'n response) \<times> 'n server" where
  "get_basket u st =
     (let (session, st1) = getUserSession (userId u) st
      in case session of
           Record s \<Rightarrow> (Inr \<lparr>status = 200, body = basket s\<rparr>, st1)
         | Builtin k \<Rightarrow> (Inr \<lparr>status = 200, body = builtin_basket st1 k\<rparr>, st1)
         | Stray v \<Rightarrow>
             if is_object v then (Inl Unmodelled, st1)
             else (Inr \<lparr>status = 200, body = proto_basket st1\<rparr>, st1))"

text \<open>The two basket writes: \<open>session.basket = x\<close>, \<open>saveSessions()\<close>, \<open>{success: true}\<close>.\<close>

definition set_basket ::
  "claims \<Rightarrow> 'n jsval \<Rightarrow> 'n session_ref \<Rightarrow> 'n server
     \<Rightarrow> (no_response + 'n response) \<times> 'n server" where
  "set_basket u x session st1 =
     (case session of
        Record s \<Rightarrow>
          (Inr \<lparr>status = 200, body = success_body\<rparr>,
           saveSessions (put_session (userId u) (s\<lparr>basket := x\<rparr>) st1))
      | Builtin k \<Rightarrow>
          (Inr \<lparr>status = 200, body = success_body\<rparr>, saveSessions (put_inherited k x st1))
      | Stray v \<Rightarrow>
          if is_object v then (Inl Unmodelled, st1)
          else (Inr \<lparr>status = 200, body = success_body\<rparr>, saveSessions st1))"

definition post_basket ::
  "claims \<Rightarrow> 'n body \<Rightarrow> 'n::zero server \<Rightarrow> (no_response + 'n response) \<times> 'n server" where
  "post_basket u b st =
     (let (session, st1) = getUserSession (userId u) st
      in set_basket u (body_basket st1 b) session st1)"

definition delete_basket ::
  "claims \<Rightarrow> 'n::zero server \<Rightarrow> (no_response + 'n response) \<times> 'n server" where
  "delete_basket u st =
     (let (session, st1) = getUserSession (userId u) st
      in set_basket u (Some (JArr [])) session st1)"

text \<open>The protected routes, as registered with \<open>authenticateToken\<close> in front.\<close>

datatype 'n route =
    GET_verify
  | GET_recipes
  | POST_recipes "'n body"
  | DELETE_recipes string
  | GET_basket
  | POST_basket "'n body"
  | DELETE_basket

fun handler ::
  "'n route \<Rightarrow> claims \<Rightarrow> 'n::zero server \<Rightarrow> (no_response + 'n response) \<times> 'n server" where
  "handler GET_verify u st = get_verify u st"
| "handler GET_recipes u st = get_recipes u st"
| "handler (POST_recipes b) u st = post_recipes u b st"
| "handler (DELETE_recipes rid) u st = delete_recipe u rid st"
| "handler GET_basket u st = get_basket u st"
| "handler (POST_basket b) u st = post_basket u b st"
| "handler DELETE_basket u st = delete_basket u st"

definition protected ::
  "env \<Rightarrow> nat \<Rightarrow> string option \<Rightarrow> 'n route \<Rightarrow> 'n::zero server
     \<Rightarrow> (no_response + 'n response) \<times> 'n server" where
  "protected E now authHeader r st =
     (case authenticateToken E now authHeader of
        Inl rejection \<Rightarrow> (Inr rejection, st)
      | Inr u \<Rightarrow> handler r u st)"


section \<open>Observations on the session table\<close>

text \<open>The recipe list and the basket a user has in the table (none yet: the fresh ones).\<close>

definition user_recipes :: "'n server \<Rightarrow> string \<Rightarrow> 'n body list" where
  "user_recipes st uid = (case sessions st uid of None \<Rightarrow> [] | Some s \<Rightarrow> recipes s)"

definition user_basket :: "'n server \<Rightarrow> string \<Rightarrow> 'n jsval" where
  "user_basket st uid = (case sessions st uid of None \<Rightarrow> Some (JArr []) | Some s \<Rightarrow> basket s)"

text \<open>
  \<open>sessions[userId]\<close> is a record of the table or is missing: the user id is not a name
  that the table inherits. And the two ways in which it is neither.
\<close>

definition ordinary :: "'n::zero server \<Rightarrow> string \<Rightarrow> bool" where
  "ordinary st uid \<longleftrightarrow> sessions st uid \<noteq> None \<or> lookup_session st uid = None"

definition builtin :: "'n server \<Rightarrow> string \<Rightarrow> bool" where
  "builtin st uid \<longleftrightarrow> sessions st uid = None \<and> uid \<in> set inherited_names"

definition stray :: "'n::zero server \<Rightarrow> string \<Rightarrow> bool" where
  "stray st uid \<longleftrightarrow>
     sessions st uid = None \<and> uid \<notin> set inherited_names \<and> uid = ''basket'' \<and>
     truthy (proto_basket st)"

definition recipe_id :: "'n body \<Rightarrow> 'n jsval" where
  "recipe_id r = get_prop r ''id''"

definition same_id :: "'n body \<Rightarrow> 'n body \<Rightarrow> bool" where
  "same_id r recipe = strict_eq (recipe_id r) (recipe_id recipe)"

text \<open>The list update of the save route, on its own.\<close>

definition upsert :: "'n body \<Rightarrow> 'n body list \<Rightarrow> 'n body list" where
  "upsert recipe rs =
     (let existingIndex =
            findIndex (\<lambda>r. strict_eq (get_prop r ''id'') (get_prop recipe ''id'')) rs
      in if existingIndex \<ge> 0 then rs[nat existingIndex := recipe] else rs @ [recipe])"

text \<open>An id that \<open>===\<close> compares by value: a JSON primitive, or no id at all.\<close>

fun primitive :: "'n jsval \<Rightarrow> bool" where
  "primitive (Some (JArr xs)) = False"
| "primitive (Some (JObj kvs)) = False"
| "primitive _ = True"

definition unique_ids :: "'n body list \<Rightarrow> bool" where
  "unique_ids rs = distinct (map recipe_id rs)"






section \<open>Contract of the token library, and a reference environment\<close>

text \<open>
  What the server relies on from \<open>jsonwebtoken\<close>: a signed token is a non-empty string
  without spaces, and verifying it under the signing secret at a later time \<open>t'\<close> gives
  back the payload with \<open>iat\<close> and \<open>exp = iat + d\<close> as long as \<open>t' < exp\<close>, and
  \<open>TokenExpiredError\<close> from \<open>exp\<close> on.
\<close>

definition jwt_sound :: "env \<Rightarrow> bool" where
  "jwt_sound E \<longleftrightarrow>
     (\<forall>p secret d t t'.
        jwt_sign E p secret d t \<noteq> [] \<and>
        CHR '' '' \<notin> set (jwt_sign E p secret d t) \<and>
        (t \<le> t' \<longrightarrow>
           jwt_verify E (jwt_sign E p secret d t) secret t' =
             (if t' < t + d
              then Inr \<lparr>userId = userId p, username = username p, iat = t, exp = t + d\<rparr>
              else Inl TokenExpiredError)))"

text \<open>
  A small environment that meets the contract, used to run the handlers on concrete
  requests. Its tokens are five dot-separated fields: the two payload strings written
  bit by bit, the two times in unary, and a tag that depends on the secret.
\<close>

fun bits_of_char :: "char \<Rightarrow> string" where
  "bits_of_char (Char b0 b1 b2 b3 b4 b5 b6 b7) =
     map (\<lambda>b. if b then CHR ''1'' else CHR ''0'') [b0, b1, b2, b3, b4, b5, b6, b7]"

definition enc :: "string \<Rightarrow> string" where
  "enc s = concat (map bits_of_char s)"

fun dec :: "string \<Rightarrow> string" where
  "dec (b0 # b1 # b2 # b3 # b4 # b5 # b6 # b7 # r) =
     Char (b0 = CHR ''1'') (b1 = CHR ''1'') (b2 = CHR ''1'') (b3 = CHR ''1'')
          (b4 = CHR ''1'') (b5 = CHR ''1'') (b6 = CHR ''1'') (b7 = CHR ''1'') # dec r"
| "dec _ = []"

definition ref_sign :: "payload \<Rightarrow> string \<Rightarrow> nat \<Rightarrow> nat \<Rightarrow> string" where
  "ref_sign p secret d t =
     enc (userId p) @ CHR ''.'' # enc (username p) @ CHR ''.'' # replicate t CHR ''1''
       @ CHR ''.'' # replicate (t + d) CHR ''1'' @ CHR ''.'' # enc secret"

definition ref_verify :: "string \<Rightarrow> string \<Rightarrow> nat \<Rightarrow> jwt_error + claims" where
  "ref_verify token secret now =
     (case js_split CHR ''.'' token of
        [a, b, c, d, s] \<Rightarrow>
          if s \<noteq> enc secret then Inl JsonWebTokenError
          else if length d \<le> now then Inl TokenExpiredError
          else Inr \<lparr>userId = dec a, username = dec b, iat = length c, exp = length d\<rparr>
      | _ \<Rightarrow> Inl JsonWebTokenError)"

definition ref_env :: env where
  "ref_env =
     \<lparr>JWT_SECRET = ''k'',
      jwt_sign = ref_sign,
      jwt_verify = ref_verify,
      bcrypt_compareSync = (\<lambda>s hash. hash = CHR ''$'' # s),
      toLowerCase = map (\<lambda>c. if c = CHR ''A'' then CHR ''a'' else c)\<rparr>"

text \<open>Small server states and identities, for running the handlers.\<close>

definition alice :: user where
  "alice = \<lparr>user_id = ''alice'', passwordHash = ''$pw'', user_name = ''Alice''\<rparr>"

definition demo_server :: "int server" where
  "demo_server =
     \<lparr>users = [''alice'' \<mapsto> alice], sessions = Map.empty, sessions_file = Map.empty,
      inherited_basket = Map.empty\<rparr>"

definition soup :: "int body" where
  "soup = Obj [(''id'', JStr ''r1''), (''name'', JStr ''Soup'')]"

definition stew :: "int body" where
  "stew = Obj [(''id'', JStr ''r1''), (''name'', JStr ''Stew'')]"

definition cake :: "int body" where
  "cake = Obj [(''id'', JStr ''r2''), (''name'', JStr ''Cake'')]"

definition bread :: "int body" where
  "bread = Obj [(''name'', JStr ''Bread'')]"

definition tagged :: "int body" where
  "tagged = Obj [(''id'', JArr [JNum 1]), (''name'', JStr ''Tagged'')]"

definition relabelled :: "int body" where
  "relabelled = Obj [(''id'', JArr [JNum 1]), (''name'', JStr ''Relabelled'')]"

definition alice_server :: "int server" where
  "alice_server =
     \<lparr>users = [''alice'' \<mapsto> alice],
      sessions = [''alice'' \<mapsto> \<lparr>recipes = [soup, cake], basket = Some (JArr [JStr ''milk''])\<rparr>],
      sessions_file = [''alice'' \<mapsto> \<lparr>recipes = [soup, cake], basket = Some (JArr [JStr ''milk''])\<rparr>],
      inherited_basket = Map.empty\<rparr>"

definition claims_of :: "string \<Rightarrow> claims" where
  "claims_of uid = \<lparr>userId = uid, username = uid, iat = 0, exp = expiresIn\<rparr>"

definition alice_claims :: claims where
  "alice_claims = claims_of ''alice''"


section \<open>The reference environment meets the contract\<close>

lemma dec_bits: "dec (bits_of_char c @ r) = c # dec r"
  by (cases c) simp

lemma dec_enc: "dec (enc s) = s"
  by (induction s) (simp_all add: enc_def dec_bits)

lemma bits_chars: "set (bits_of_char c) \<subseteq> {CHR ''0'', CHR ''1''}"
  by (cases c) auto

lemma enc_chars: "set (enc s) \<subseteq> {CHR ''0'', CHR ''1''}"
  unfolding enc_def using bits_chars by (induction s) auto

lemma enc_no_dot: "CHR ''.'' \<notin> set (enc s)"
  using enc_chars [of s] by auto

lemma enc_no_space: "CHR '' '' \<notin> set (enc s)"
  using enc_chars [of s] by auto

lemma js_split_none: "c \<notin> set a \<Longrightarrow> js_split c a = [a]"
  by (induction a) auto

lemma js_split_app: "c \<notin> set a \<Longrightarrow> js_split c (a @ c # r) = a # js_split c r"
  by (induction a) auto

lemma ref_split:
  "js_split CHR ''.'' (ref_sign p secret d t) =
     [enc (userId p), enc (username p), replicate t CHR ''1'', replicate (t + d) CHR ''1'',
      enc secret]"
  by (simp add: ref_sign_def js_split_app js_split_none enc_no_dot)

lemma ref_verify_sign:
  "ref_verify (ref_sign p secret d t) secret t' =
     (if t' < t + d
      then Inr \<lparr>userId = userId p, username = username p, iat = t, exp = t + d\<rparr>
      else Inl TokenExpiredError)"
  by (simp add: ref_verify_def ref_split dec_enc)

lemma ref_sign_shape: "ref_sign p secret d t \<noteq> [] \<and> CHR '' '' \<notin> set (ref_sign p secret d t)"
  by (simp add: ref_sign_def enc_no_space)

lemma ref_env_sound: "jwt_sound ref_env"
  by (simp add: jwt_sound_def ref_env_def ref_verify_sign ref_sign_shape)

section \<open>Request gate\<close>

lemma bearer_no_header: "bearer_token None = None"
  by (simp add: bearer_token_def)

lemma bearer_no_space: "CHR '' '' \<notin> set h \<Longrightarrow> h \<noteq> [] \<Longrightarrow> bearer_token (Some h) = None"
  by (simp add: bearer_token_def js_split_none js_index_def)

lemma bearer_scheme:
  "CHR '' '' \<notin> set tok \<Longrightarrow> bearer_token (Some (''Bearer '' @ tok)) = Some tok"
  by (simp add: bearer_token_def js_split_none js_index_def)


text \<open>
  C2. A protected request whose \<open>Authorization\<close> header yields no token (the header is
  absent, has no space-separated second part, or that part is empty) is answered 401
  "no token" and the server state is untouched. A request whose token the library rejects,
  for whatever reason, is answered 403 and the state is untouched. Otherwise the gate
  attaches the decoded claims and the outcome is exactly the handler's on the unchanged
  state.
\<close>

theorem request_gate:
  fixes st :: "'n::zero server"
  shows
  "(bearer_token h = None \<or> bearer_token h = Some [] \<longrightarrow>
      protected E now h r st =
        (Inr \<lparr>status = 401, body = error_body ''Access denied. No token provided.''\<rparr>, st))
   \<and> (h = None \<or> (\<exists>v. h = Some v \<and> CHR '' '' \<notin> set v) \<longrightarrow>
      protected E now h r st =
        (Inr \<lparr>status = 401, body = error_body ''Access denied. No token provided.''\<rparr>, st))
   \<and> (\<forall>tok err. bearer_token h = Some tok \<and> tok \<noteq> [] \<and>
          jwt_verify E tok (JWT_SECRET E) now = Inl err \<longrightarrow>
        protected E now h r st =
          (Inr \<lparr>status = 403, body = error_body ''Invalid or expired token''\<rparr>, st))
   \<and> (\<forall>tok u. bearer_token h = Some tok \<and> tok \<noteq> [] \<and>
          jwt_verify E tok (JWT_SECRET E) now = Inr u \<longrightarrow>
        (authenticateToken E now h :: 'n response + claims) = Inr u \<and>
        protected E now h r st = handler r u st)"
proof -
  have no_token: "protected E now h r st =
        (Inr \<lparr>status = 401, body = error_body ''Access denied. No token provided.''\<rparr>, st)"
    if "bearer_token h = None \<or> bearer_token h = Some []"
    using that by (auto simp: protected_def authenticateToken_def)
  have malformed: "bearer_token h = None \<or> bearer_token h = Some []"
    if "h = None \<or> (\<exists>v. h = Some v \<and> CHR '' '' \<notin> set v)"
  proof -
    from that consider "h = None" | v where "h = Some v" "CHR '' '' \<notin> set v" by blast
    then show ?thesis
    proof cases
      case 1
      then show ?thesis by (simp add: bearer_no_header)
    next
      case 2
      then show ?thesis
        by (cases "v = []") (simp add: bearer_token_def, simp add: bearer_no_space)
    qed
  qed
  have rejected: "protected E now h r st =
          (Inr \<lparr>status = 403, body = error_body ''Invalid or expired token''\<rparr>, st)"
    if "bearer_token h = Some tok" "tok \<noteq> []" "jwt_verify E tok (JWT_SECRET E) now = Inl err"
    for tok err
    using that by (simp add: protected_def authenticateToken_def)
  have accepted: "(authenticateToken E now h :: 'n response + claims) = Inr u \<and>
        protected E now h r st = handler r u st"
    if "bearer_token h = Some tok" "tok \<noteq> []" "jwt_verify E tok (JWT_SECRET E) now = Inr u"
    for tok u
    using that by (simp add: protected_def authenticateToken_def)
  from no_token malformed rejected accepted show ?thesis by blast
qed


theorem request_gate_witness:
  "protected ref_env 7 None GET_basket
       (\<lparr>users = Map.empty, sessions = Map.empty, sessions_file = Map.empty,
        inherited_basket = Map.empty\<rparr> :: int server) =
     (Inr \<lparr>status = 401, body = error_body ''Access denied. No token provided.''\<rparr>,
      \<lparr>users = Map.empty, sessions = Map.empty, sessions_file = Map.empty,
        inherited_basket = Map.empty\<rparr>)
   \<and> protected ref_env 7 (Some ''Bearer x.y'') GET_basket
       (\<lparr>users = Map.empty, sessions = Map.empty, sessions_file = Map.empty,
        inherited_basket = Map.empty\<rparr> :: int server) =
     (Inr \<lparr>status = 403, body = error_body ''Invalid or expired token''\<rparr>,
      \<lparr>users = Map.empty, sessions = Map.empty, sessions_file = Map.empty,
        inherited_basket = Map.empty\<rparr>)
   \<and> protected ref_env 7
       (Some (''Bearer '' @ ref_sign \<lparr>userId = ''bob'', username = ''bob''\<rparr> ''k'' 5 3))
       GET_basket
       (\<lparr>users = Map.empty, sessions = Map.empty, sessions_file = Map.empty,
        inherited_basket = Map.empty\<rparr> :: int server) =
     handler GET_basket \<lparr>userId = ''bob'', username = ''bob'', iat = 3, exp = 8\<rparr>
       \<lparr>users = Map.empty, sessions = Map.empty, sessions_file = Map.empty,
        inherited_basket = Map.empty\<rparr>"
proof -
  let ?st = "\<lparr>users = Map.empty, sessions = Map.empty, sessions_file = Map.empty,
        inherited_basket = Map.empty\<rparr> :: int server"
  let ?tok = "ref_sign \<lparr>userId = ''bob'', username = ''bob''\<rparr> ''k'' 5 3"
  have a: "bearer_token None = None"
    by (simp add: bearer_token_def)
  have b: "bearer_token (Some ''Bearer x.y'') = Some ''x.y'' \<and> ''x.y'' \<noteq> [] \<and>
      jwt_verify ref_env ''x.y'' (JWT_SECRET ref_env) 7 = Inl JsonWebTokenError"
    by (simp add: bearer_token_def js_index_def ref_env_def ref_verify_def)
  have c: "bearer_token (Some (''Bearer '' @ ?tok)) = Some ?tok \<and> ?tok \<noteq> [] \<and>
      jwt_verify ref_env ?tok (JWT_SECRET ref_env) 7 =
        Inr \<lparr>userId = ''bob'', username = ''bob'', iat = 3, exp = 8\<rparr>"
  proof (intro conjI)
    show "bearer_token (Some (''Bearer '' @ ?tok)) = Some ?tok"
      by (rule bearer_scheme) (simp add: ref_sign_shape)
    show "?tok \<noteq> []"
      by (simp add: ref_sign_shape)
    show "jwt_verify ref_env ?tok (JWT_SECRET ref_env) 7 =
        Inr \<lparr>userId = ''bob'', username = ''bob'', iat = 3, exp = 8\<rparr>"
      by (simp add: ref_env_def ref_verify_sign)
  qed
  show ?thesis
    using request_gate [of None ref_env 7 GET_basket ?st] a
      request_gate [of "Some ''Bearer x.y''" ref_env 7 GET_basket ?st] b
      request_gate [of "Some (''Bearer '' @ ?tok)" ref_env 7 GET_basket ?st] c
    by blast
qed

section \<open>Token service\<close>

lemma issue_shape:
  "jwt_sound E \<Longrightarrow> issue E now p \<noteq> [] \<and> CHR '' '' \<notin> set (issue E now p)"
  by (simp add: jwt_sound_def issue_def)

lemma verify_issue:
  "jwt_sound E \<Longrightarrow> now \<le> now' \<Longrightarrow>
   jwt_verify E (issue E now p) (JWT_SECRET E) now' =
     (if now' < now + expiresIn
      then Inr \<lparr>userId = userId p, username = username p, iat = now, exp = now + expiresIn\<rparr>
      else Inl TokenExpiredError)"
  by (simp add: jwt_sound_def issue_def)

lemma gate_bearer:
  "tok \<noteq> [] \<Longrightarrow> CHR '' '' \<notin> set tok \<Longrightarrow>
   authenticateToken E now (Some (''Bearer '' @ tok)) =
     (case jwt_verify E tok (JWT_SECRET E) now of
        Inl err \<Rightarrow> Inl \<lparr>status = 403, body = error_body ''Invalid or expired token''\<rparr>
      | Inr u \<Rightarrow> Inr u)"
  using bearer_scheme [of tok] by (simp add: authenticateToken_def)

lemma login_success:
  "un \<noteq> [] \<Longrightarrow> pw \<noteq> [] \<Longrightarrow> users st (toLowerCase E un) = Some u \<Longrightarrow>
   bcrypt_compareSync E pw (passwordHash u) \<Longrightarrow>
   login E now st (Some (JStr un)) (Some (JStr pw)) =
     Inr \<lparr>status = 200,
      body = Some (JObj [(''token'', JStr (issue E now \<lparr>userId = user_id u, username = user_id u\<rparr>)),
               (''user'', JObj [(''id'', JStr (user_id u)), (''name'', JStr (user_name u))])])\<rparr>"
  by (simp add: login_def lookup_user_def)

text \<open>
  C1. For a token library that meets its contract: the token that the login route issues
  for a user carries \<open>{userId, username}\<close>, and presenting an issued token to the gate at
  once, or at any time before its seven days are over, gives back the same \<open>userId\<close> and
  \<open>username\<close>; from the expiry time on the gate answers with the one rejection, and so it
  does for every token on which verification reports an error, whatever the error.
\<close>

theorem token_roundtrip:
  assumes sound: "jwt_sound E"
  shows
  "(un \<noteq> [] \<and> pw \<noteq> [] \<and> users st (toLowerCase E un) = Some u \<and>
      bcrypt_compareSync E pw (passwordHash u) \<longrightarrow>
      login E now (st :: 'n::zero server) (Some (JStr un)) (Some (JStr pw)) =
        Inr \<lparr>status = 200,
             body = Some (JObj [(''token'',
                             JStr (issue E now \<lparr>userId = user_id u, username = user_id u\<rparr>)),
                      (''user'', JObj [(''id'', JStr (user_id u)),
                                       (''name'', JStr (user_name u))])])\<rparr>)
   \<and> (authenticateToken E now (Some (''Bearer '' @ issue E now p)) :: 'n response + claims) =
        Inr \<lparr>userId = userId p, username = username p, iat = now, exp = now + expiresIn\<rparr>
   \<and> (now \<le> now' \<and> now' < now + expiresIn \<longrightarrow>
        (authenticateToken E now' (Some (''Bearer '' @ issue E now p)) :: 'n response + claims) =
          Inr \<lparr>userId = userId p, username = username p, iat = now, exp = now + expiresIn\<rparr>)
   \<and> (now + expiresIn \<le> now' \<longrightarrow>
        (authenticateToken E now' (Some (''Bearer '' @ issue E now p)) :: 'n response + claims) =
          Inl \<lparr>status = 403, body = error_body ''Invalid or expired token''\<rparr>)
   \<and> (\<forall>tok err. tok \<noteq> [] \<and> CHR '' '' \<notin> set tok \<and>
          jwt_verify E tok (JWT_SECRET E) now' = Inl err \<longrightarrow>
        (authenticateToken E now' (Some (''Bearer '' @ tok)) :: 'n response + claims) =
          Inl \<lparr>status = 403, body = error_body ''Invalid or expired token''\<rparr>)"
proof (intro conjI impI allI)
  fix tok err
  assume "tok \<noteq> [] \<and> CHR '' '' \<notin> set tok \<and> jwt_verify E tok (JWT_SECRET E) now' = Inl err"
  then show "(authenticateToken E now' (Some (''Bearer '' @ tok)) :: 'n response + claims) =
      Inl \<lparr>status = 403, body = error_body ''Invalid or expired token''\<rparr>"
    using gate_bearer [of tok E now'] by simp
next
  assume "un \<noteq> [] \<and> pw \<noteq> [] \<and> users st (toLowerCase E un) = Some u \<and>
      bcrypt_compareSync E pw (passwordHash u)"
  then show "login E now st (Some (JStr un)) (Some (JStr pw)) =
        Inr \<lparr>status = 200,
             body = Some (JObj [(''token'',
                             JStr (issue E now \<lparr>userId = user_id u, username = user_id u\<rparr>)),
                      (''user'', JObj [(''id'', JStr (user_id u)),
                                       (''name'', JStr (user_name u))])])\<rparr>"
    by (simp add: login_success)
next
  have "0 < expiresIn" by (simp add: expiresIn_def)
  then show "(authenticateToken E now (Some (''Bearer '' @ issue E now p)) :: 'n response + claims) =
        Inr \<lparr>userId = userId p, username = username p, iat = now, exp = now + expiresIn\<rparr>"
    using issue_shape [OF sound, of now p] verify_issue [OF sound, of now now p]
      gate_bearer [of "issue E now p" E now]
    by simp
next
  assume "now \<le> now' \<and> now' < now + expiresIn"
  then show "(authenticateToken E now' (Some (''Bearer '' @ issue E now p)) :: 'n response + claims) =
        Inr \<lparr>userId = userId p, username = username p, iat = now, exp = now + expiresIn\<rparr>"
    using issue_shape [OF sound, of now p] verify_issue [OF sound, of now now' p]
      gate_bearer [of "issue E now p" E now']
    by simp
next
  assume "now + expiresIn \<le> now'"
  then show "(authenticateToken E now' (Some (''Bearer '' @ issue E now p)) :: 'n response + claims) =
        Inl \<lparr>status = 403, body = error_body ''Invalid or expired token''\<rparr>"
    using issue_shape [OF sound, of now p] verify_issue [OF sound, of now now' p]
      gate_bearer [of "issue E now p" E now']
    by simp
qed


theorem token_roundtrip_witness:
  "jwt_sound ref_env
   \<and> login ref_env 3 demo_server (Some (JStr ''Alice'')) (Some (JStr ''pw'')) =
        Inr \<lparr>status = 200,
             body = Some (JObj [(''token'',
                             JStr (issue ref_env 3 \<lparr>userId = ''alice'', username = ''alice''\<rparr>)),
                      (''user'', JObj [(''id'', JStr ''alice''), (''name'', JStr ''Alice'')])])\<rparr>
   \<and> (authenticateToken ref_env 9
          (Some (''Bearer '' @ issue ref_env 3 \<lparr>userId = ''alice'', username = ''alice''\<rparr>))
        :: int response + claims) =
        Inr \<lparr>userId = ''alice'', username = ''alice'', iat = 3, exp = 3 + expiresIn\<rparr>
   \<and> (authenticateToken ref_env (3 + expiresIn)
          (Some (''Bearer '' @ issue ref_env 3 \<lparr>userId = ''alice'', username = ''alice''\<rparr>))
        :: int response + claims) =
        Inl \<lparr>status = 403, body = error_body ''Invalid or expired token''\<rparr>
   \<and> (authenticateToken ref_env 9 (Some (''Bearer '' @ ''x.y'')) :: int response + claims) =
        Inl \<lparr>status = 403, body = error_body ''Invalid or expired token''\<rparr>"
proof -
  let ?p = "\<lparr>userId = ''alice'', username = ''alice''\<rparr>"
  have lib: "jwt_sound ref_env"
    by (rule ref_env_sound)
  have user: "''Alice'' \<noteq> [] \<and> ''pw'' \<noteq> [] \<and>
      users demo_server (toLowerCase ref_env ''Alice'') = Some alice \<and>
      bcrypt_compareSync ref_env ''pw'' (passwordHash alice)"
    by (simp add: demo_server_def ref_env_def alice_def)
  have times: "(3::nat) \<le> 9 \<and> 9 < 3 + expiresIn"
    by (simp add: expiresIn_def)
  have bad: "''x.y'' \<noteq> [] \<and> CHR '' '' \<notin> set ''x.y'' \<and>
      jwt_verify ref_env ''x.y'' (JWT_SECRET ref_env) 9 = Inl JsonWebTokenError"
    by (simp add: ref_env_def ref_verify_def)
  have ids: "user_id alice = ''alice'' \<and> user_name alice = ''Alice''"
    by (simp add: alice_def)
  show ?thesis
    using token_roundtrip [OF lib, of "''Alice''" "''pw''" demo_server alice 3 ?p 9]
      token_roundtrip [OF lib, of "''Alice''" "''pw''" demo_server alice 3 ?p "3 + expiresIn"]
      lib user times bad ids
    by (simp del: append.simps)
qed

section \<open>Login\<close>

lemma lookup_user_own:
  "users st k = Some u \<Longrightarrow>
   lookup_user st k =
     Some \<lparr>view_id = Some (JStr (user_id u)), view_hash = Some (JStr (passwordHash u)),
           view_name = Some (JStr (user_name u))\<rparr>"
  by (simp add: lookup_user_def)

lemma lookup_user_inherited:
  "users st k = None \<Longrightarrow> k \<in> set inherited_names \<Longrightarrow>
   lookup_user st k = Some \<lparr>view_id = None, view_hash = None, view_name = builtin_name k\<rparr>"
  by (simp add: lookup_user_def)

lemma compareSync_not_string: "\<forall>p. pw \<noteq> Some (JStr p) \<Longrightarrow> compareSync E pw h = Inl Error"
  by (cases "(E, pw, h)" rule: compareSync.cases) simp_all

lemma compareSync_no_hash: "compareSync E pw None = Inl Error"
  by (cases "(E, pw, None :: 'a jsval)" rule: compareSync.cases) simp_all

text \<open>
  C3. The two failures that the login route means to answer alike are answered alike
  only in part. An unknown username (the lookup is \<open>undefined\<close>) gets 401
  \<open>Invalid credentials\<close> for every truthy password, and so does a known user with a string
  password that does not match. But for a known user a truthy password that is not a
  string makes \<open>bcrypt.compareSync\<close> throw, and so does the unknown username
  \<open>constructor\<close> (or any other inherited name), whose lookup finds a built-in member
  without a \<open>passwordHash\<close>: no 401 is sent, and the caller can tell a known user from an
  unknown one. A truthy username that is not a string throws at \<open>toLowerCase\<close>.
\<close>

theorem login_failure_responses:
  fixes st :: "'n::zero server"
  shows
  "(un \<noteq> [] \<and> truthy pw \<and> lookup_user st (toLowerCase E un) = None \<longrightarrow>
      login E t st (Some (JStr un)) pw =
        Inr \<lparr>status = 401, body = error_body ''Invalid credentials''\<rparr>)
   \<and> (un \<noteq> [] \<and> p \<noteq> [] \<and> users st (toLowerCase E un) = Some u \<and>
        \<not> bcrypt_compareSync E p (passwordHash u) \<longrightarrow>
      login E t st (Some (JStr un)) (Some (JStr p)) =
        Inr \<lparr>status = 401, body = error_body ''Invalid credentials''\<rparr>)
   \<and> (un \<noteq> [] \<and> truthy pw \<and> (\<forall>p. pw \<noteq> Some (JStr p)) \<and>
        users st (toLowerCase E un) = Some u \<longrightarrow>
      login E t st (Some (JStr un)) pw = Inl Error)
   \<and> (un \<noteq> [] \<and> truthy pw \<and> users st (toLowerCase E un) = None \<and>
        toLowerCase E un \<in> set inherited_names \<longrightarrow>
      login E t st (Some (JStr un)) pw = Inl Error)
   \<and> (truthy uname \<and> truthy pw \<and> (\<forall>un. uname \<noteq> Some (JStr un)) \<longrightarrow>
      login E t st uname pw = Inl TypeError)"
proof (intro conjI impI)
  assume "un \<noteq> [] \<and> truthy pw \<and> lookup_user st (toLowerCase E un) = None"
  then show "login E t st (Some (JStr un)) pw =
      Inr \<lparr>status = 401, body = error_body ''Invalid credentials''\<rparr>"
    by (simp add: login_def)
next
  assume "un \<noteq> [] \<and> p \<noteq> [] \<and> users st (toLowerCase E un) = Some u \<and>
      \<not> bcrypt_compareSync E p (passwordHash u)"
  then show "login E t st (Some (JStr un)) (Some (JStr p)) =
      Inr \<lparr>status = 401, body = error_body ''Invalid credentials''\<rparr>"
    by (simp add: login_def lookup_user_own)
next
  assume "un \<noteq> [] \<and> truthy pw \<and> (\<forall>p. pw \<noteq> Some (JStr p)) \<and>
      users st (toLowerCase E un) = Some u"
  then show "login E t st (Some (JStr un)) pw = Inl Error"
    by (simp add: login_def lookup_user_own compareSync_not_string)
next
  assume "un \<noteq> [] \<and> truthy pw \<and> users st (toLowerCase E un) = None \<and>
      toLowerCase E un \<in> set inherited_names"
  then show "login E t st (Some (JStr un)) pw = Inl Error"
    by (simp add: login_def lookup_user_inherited compareSync_no_hash)
next
  assume a: "truthy uname \<and> truthy pw \<and> (\<forall>un. uname \<noteq> Some (JStr un))"
  then show "login E t st uname pw = Inl TypeError"
    by (cases uname; cases "the uname") (simp_all add: login_def)
qed

theorem login_failure_responses_witness:
  "login ref_env 3 demo_server (Some (JStr ''nobody'')) (Some (JNum 123)) =
     Inr \<lparr>status = 401, body = error_body ''Invalid credentials''\<rparr>
   \<and> login ref_env 3 demo_server (Some (JStr ''alice'')) (Some (JNum 123)) = Inl Error
   \<and> login ref_env 3 demo_server (Some (JStr ''alice'')) (Some (JStr ''guess'')) =
     Inr \<lparr>status = 401, body = error_body ''Invalid credentials''\<rparr>
   \<and> login ref_env 3 demo_server (Some (JStr ''constructor'')) (Some (JStr ''guess'')) =
     Inl Error
   \<and> login ref_env 3 demo_server (Some (JNum 7)) (Some (JStr ''guess'')) = Inl TypeError"
proof -
  have lower: "toLowerCase ref_env ''nobody'' = ''nobody''"
    "toLowerCase ref_env ''alice'' = ''alice''"
    "toLowerCase ref_env ''constructor'' = ''constructor''"
    by (simp_all add: ref_env_def)
  have nobody: "''nobody'' \<noteq> [] \<and> truthy (Some (JNum (123::int))) \<and>
      lookup_user demo_server (toLowerCase ref_env ''nobody'') = None"
    by (simp add: lower lookup_user_def demo_server_def inherited_names_def)
  have number: "''alice'' \<noteq> [] \<and> truthy (Some (JNum (123::int))) \<and>
      (\<forall>p. Some (JNum (123::int)) \<noteq> Some (JStr p)) \<and>
      users demo_server (toLowerCase ref_env ''alice'') = Some alice"
    by (simp add: lower demo_server_def)
  have guess: "''alice'' \<noteq> [] \<and> ''guess'' \<noteq> [] \<and>
      users demo_server (toLowerCase ref_env ''alice'') = Some alice \<and>
      \<not> bcrypt_compareSync ref_env ''guess'' (passwordHash alice)"
    by (simp add: lower demo_server_def ref_env_def alice_def)
  have inherited: "''constructor'' \<noteq> [] \<and> truthy (Some (JStr ''guess'' :: int json)) \<and>
      users demo_server (toLowerCase ref_env ''constructor'') = None \<and>
      toLowerCase ref_env ''constructor'' \<in> set inherited_names"
    by (simp add: lower demo_server_def inherited_names_def)
  have typed: "truthy (Some (JNum (7::int))) \<and> truthy (Some (JStr ''guess'' :: int json)) \<and>
      (\<forall>un. Some (JNum (7::int)) \<noteq> Some (JStr un))"
    by simp
  note T = login_failure_responses [where E = ref_env and t = 3 and st = demo_server]
  from T [where un = "''nobody''" and pw = "Some (JNum 123)"] nobody
  have 1: "login ref_env 3 demo_server (Some (JStr ''nobody'')) (Some (JNum 123)) =
     Inr \<lparr>status = 401, body = error_body ''Invalid credentials''\<rparr>"
    by blast
  from T [where un = "''alice''" and pw = "Some (JNum 123)" and u = alice] number
  have 2: "login ref_env 3 demo_server (Some (JStr ''alice'')) (Some (JNum 123)) = Inl Error"
    by blast
  from T [where un = "''alice''" and p = "''guess''" and u = alice] guess
  have 3: "login ref_env 3 demo_server (Some (JStr ''alice'')) (Some (JStr ''guess'')) =
     Inr \<lparr>status = 401, body = error_body ''Invalid credentials''\<rparr>"
    by blast
  from T [where un = "''constructor''" and pw = "Some (JStr ''guess'')"] inherited
  have 4: "login ref_env 3 demo_server (Some (JStr ''constructor'')) (Some (JStr ''guess'')) =
     Inl Error"
    by blast
  from T [where uname = "Some (JNum 7)" and pw = "Some (JStr ''guess'')"] typed
  have 5: "login ref_env 3 demo_server (Some (JNum 7)) (Some (JStr ''guess'')) = Inl TypeError"
    by blast
  from 1 2 3 4 5 show ?thesis by simp
qed

section \<open>Session store\<close>

lemma lookup_session_ordinary:
  "ordinary st uid \<Longrightarrow> lookup_session st uid = map_option Record (sessions st uid)"
  by (auto simp: ordinary_def lookup_session_def split: option.splits if_splits)

lemma lookup_session_builtin: "builtin st uid \<Longrightarrow> lookup_session st uid = Some (Builtin uid)"
  by (simp add: builtin_def lookup_session_def)

lemma lookup_session_stray:
  "stray st uid \<Longrightarrow>
   \<exists>v. proto_basket st = Some v \<and> truthy_json v \<and> lookup_session st uid = Some (Stray v)"
  by (cases "proto_basket st") (auto simp: stray_def lookup_session_def)

lemma lookup_cases: "ordinary st uid \<or> builtin st uid \<or> stray st uid"
  by (auto simp: ordinary_def builtin_def stray_def lookup_session_def split: option.splits)

lemma getUserSession_fst:
  "ordinary st uid \<Longrightarrow>
   fst (getUserSession uid st) =
     Record \<lparr>recipes = user_recipes st uid, basket = user_basket st uid\<rparr>"
  by (simp add: Let_def getUserSession_def lookup_session_ordinary user_recipes_def
      user_basket_def split: option.splits)

lemma getUserSession_sessions:
  "ordinary st uid \<Longrightarrow>
   sessions (snd (getUserSession uid st)) =
     (sessions st)(uid \<mapsto> \<lparr>recipes = user_recipes st uid, basket = user_basket st uid\<rparr>)"
  by (auto simp: Let_def getUserSession_def lookup_session_ordinary saveSessions_def
      user_recipes_def user_basket_def split: option.splits)

lemma getUserSession_users: "users (snd (getUserSession uid st)) = users st"
  by (simp add: Let_def getUserSession_def saveSessions_def split: option.splits)

lemma getUserSession_inherited:
  "inherited_basket (snd (getUserSession uid st)) = inherited_basket st"
  by (simp add: Let_def getUserSession_def saveSessions_def split: option.splits)

lemma getUserSession_builtin: "builtin st uid \<Longrightarrow> getUserSession uid st = (Builtin uid, st)"
  by (simp add: getUserSession_def lookup_session_builtin)

lemma getUserSession_stray:
  "stray st uid \<Longrightarrow>
   \<exists>v. proto_basket st = Some v \<and> truthy_json v \<and> getUserSession uid st = (Stray v, st)"
  using lookup_session_stray [of st uid] by (auto simp: getUserSession_def)

lemma getUserSession_ordinary:
  assumes "ordinary st uid"
  obtains st1 where
    "getUserSession uid st =
       (Record \<lparr>recipes = user_recipes st uid, basket = user_basket st uid\<rparr>, st1)"
    "sessions st1 =
       (sessions st)(uid \<mapsto> \<lparr>recipes = user_recipes st uid, basket = user_basket st uid\<rparr>)"
    "users st1 = users st" "inherited_basket st1 = inherited_basket st"
proof -
  obtain r st1 where g: "getUserSession uid st = (r, st1)"
    by (cases "getUserSession uid st")
  from g getUserSession_fst [OF assms] getUserSession_sessions [OF assms]
    getUserSession_users [of uid st] getUserSession_inherited [of uid st]
  show ?thesis by (intro that [of st1]) simp_all
qed

text \<open>
  C6. \<open>getUserSession\<close> always returns, but not always a session record. A record of the
  table is returned as it is and nothing changes. Where \<open>sessions[userId]\<close> is missing,
  the fresh record \<open>{recipes: [], basket: []}\<close> is entered under the user id, the table is
  written out and the fresh record is returned. But under a name that the table inherits
  from \<open>Object.prototype\<close>, such as \<open>constructor\<close>, the lookup is truthy without a record:
  nothing is created or written, and the inherited member is returned. A second call
  right after returns the same object and changes nothing.
\<close>

theorem session_get_or_create:
  "(\<forall>s. sessions st uid = Some s \<longrightarrow> getUserSession uid st = (Record s, st))
   \<and> (sessions st uid = None \<and> uid \<notin> set inherited_names \<and>
        \<not> (uid = ''basket'' \<and> truthy (proto_basket st)) \<longrightarrow>
        getUserSession uid st =
          (Record \<lparr>recipes = [], basket = Some (JArr [])\<rparr>,
           st\<lparr>sessions := (sessions st)(uid \<mapsto> \<lparr>recipes = [], basket = Some (JArr [])\<rparr>),
              sessions_file := (sessions st)(uid \<mapsto> \<lparr>recipes = [], basket = Some (JArr [])\<rparr>)\<rparr>))
   \<and> (sessions st uid = None \<and> uid \<in> set inherited_names \<longrightarrow>
        getUserSession uid st = (Builtin uid, st))
   \<and> (ordinary st uid \<longrightarrow>
        map_option Record (sessions (snd (getUserSession uid st)) uid) =
          Some (fst (getUserSession uid st)))
   \<and> getUserSession uid (snd (getUserSession uid st)) =
        (fst (getUserSession uid st), snd (getUserSession uid st))"
proof (intro conjI impI allI)
  fix s
  assume "sessions st uid = Some s"
  then show "getUserSession uid st = (Record s, st)"
    by (simp add: getUserSession_def lookup_session_def)
next
  assume "sessions st uid = None \<and> uid \<notin> set inherited_names \<and>
      \<not> (uid = ''basket'' \<and> truthy (proto_basket st))"
  then show "getUserSession uid st =
          (Record \<lparr>recipes = [], basket = Some (JArr [])\<rparr>,
           st\<lparr>sessions := (sessions st)(uid \<mapsto> \<lparr>recipes = [], basket = Some (JArr [])\<rparr>),
              sessions_file := (sessions st)(uid \<mapsto> \<lparr>recipes = [], basket = Some (JArr [])\<rparr>)\<rparr>)"
    by (auto simp: getUserSession_def lookup_session_def saveSessions_def Let_def)
next
  assume "sessions st uid = None \<and> uid \<in> set inherited_names"
  then show "getUserSession uid st = (Builtin uid, st)"
    by (simp add: getUserSession_builtin builtin_def)
next
  assume "ordinary st uid"
  then show "map_option Record (sessions (snd (getUserSession uid st)) uid) =
      Some (fst (getUserSession uid st))"
    by (simp add: getUserSession_fst getUserSession_sessions)
next
  show "getUserSession uid (snd (getUserSession uid st)) =
        (fst (getUserSession uid st), snd (getUserSession uid st))"
    by (auto simp: getUserSession_def lookup_session_def saveSessions_def Let_def
        proto_basket_def split: option.splits)
qed

theorem session_get_or_create_witness:
  "getUserSession ''constructor'' demo_server = (Builtin ''constructor'', demo_server)
   \<and> getUserSession ''alice'' alice_server =
     (Record \<lparr>recipes = [soup, cake], basket = Some (JArr [JStr ''milk''])\<rparr>, alice_server)
   \<and> getUserSession ''alice'' demo_server =
     (Record \<lparr>recipes = [], basket = Some (JArr [])\<rparr>,
      demo_server\<lparr>sessions := [''alice'' \<mapsto> \<lparr>recipes = [], basket = Some (JArr [])\<rparr>],
         sessions_file := [''alice'' \<mapsto> \<lparr>recipes = [], basket = Some (JArr [])\<rparr>]\<rparr>)"
proof -
  have inherited: "sessions demo_server ''constructor'' = None \<and>
      ''constructor'' \<in> set inherited_names"
    by (simp add: demo_server_def inherited_names_def)
  have present: "sessions alice_server ''alice'' =
      Some \<lparr>recipes = [soup, cake], basket = Some (JArr [JStr ''milk''])\<rparr>"
    by (simp add: alice_server_def)
  have absent: "sessions demo_server ''alice'' = None \<and> ''alice'' \<notin> set inherited_names \<and>
      \<not> (''alice'' = ''basket'' \<and> truthy (proto_basket demo_server))"
    by (simp add: demo_server_def inherited_names_def)
  have empty: "sessions demo_server = Map.empty"
    by (simp add: demo_server_def)
  from session_get_or_create [of demo_server "''constructor''"] inherited
  have 1: "getUserSession ''constructor'' demo_server = (Builtin ''constructor'', demo_server)"
    by blast
  from session_get_or_create [of alice_server "''alice''"] present
  have 2: "getUserSession ''alice'' alice_server =
     (Record \<lparr>recipes = [soup, cake], basket = Some (JArr [JStr ''milk''])\<rparr>, alice_server)"
    by blast
  from session_get_or_create [of demo_server "''alice''"] absent
  have 3: "getUserSession ''alice'' demo_server =
     (Record \<lparr>recipes = [], basket = Some (JArr [])\<rparr>,
      demo_server\<lparr>sessions := (sessions demo_server)(''alice'' \<mapsto> \<lparr>recipes = [], basket = Some (JArr [])\<rparr>),
         sessions_file := (sessions demo_server)(''alice'' \<mapsto> \<lparr>recipes = [], basket = Some (JArr [])\<rparr>)\<rparr>)"
    by blast
  from 1 2 3 show ?thesis by (simp add: empty)
qed

section \<open>Saving a recipe\<close>

lemma findIndex_range: "findIndex p xs = - 1 \<or> 0 \<le> findIndex p xs"
  by (induction xs) (auto simp: Let_def)

lemma findIndex_none: "findIndex p xs < 0 \<longleftrightarrow> (\<forall>x \<in> set xs. \<not> p x)"
  using findIndex_range [of p] by (induction xs) (auto simp: Let_def)

lemma findIndex_first:
  "i < length xs \<Longrightarrow> p (xs ! i) \<Longrightarrow> (\<forall>j < i. \<not> p (xs ! j)) \<Longrightarrow> findIndex p xs = int i"
proof (induction xs arbitrary: i)
  case Nil
  then show ?case by simp
next
  case (Cons x xs)
  show ?case
  proof (cases i)
    case 0
    with Cons.prems show ?thesis by simp
  next
    case (Suc k)
    with Cons.prems have "\<not> p x" by auto
    moreover from Cons.prems Suc have "findIndex p xs = int k"
      by (intro Cons.IH) auto
    ultimately show ?thesis using Suc by (simp add: Let_def)
  qed
qed

lemma findIndex_found:
  "0 \<le> findIndex p xs \<Longrightarrow>
   nat (findIndex p xs) < length xs \<and> p (xs ! nat (findIndex p xs)) \<and>
   (\<forall>j < nat (findIndex p xs). \<not> p (xs ! j))"
proof (induction xs)
  case Nil
  then show ?case by simp
next
  case (Cons x xs)
  show ?case
  proof (cases "p x")
    case True
    then show ?thesis by simp
  next
    case False
    with Cons.prems have pos: "0 \<le> findIndex p xs"
      by (simp add: Let_def split: if_splits)
    with False have eq: "findIndex p (x # xs) = findIndex p xs + 1"
      by (simp add: Let_def)
    from pos have suc: "nat (findIndex p xs + 1) = Suc (nat (findIndex p xs))"
      by simp
    from Cons.IH [OF pos] False show ?thesis
      unfolding eq suc by (auto simp: less_Suc_eq_0_disj)
  qed
qed

lemma upsert_append:
  "\<forall>r \<in> set rs. \<not> same_id r recipe \<Longrightarrow> upsert recipe rs = rs @ [recipe]"
  using findIndex_none [of "\<lambda>r. strict_eq (get_prop r ''id'') (get_prop recipe ''id'')" rs]
  by (simp add: upsert_def same_id_def recipe_id_def Let_def)

lemma upsert_replace:
  "i < length rs \<Longrightarrow> same_id (rs ! i) recipe \<Longrightarrow> (\<forall>j < i. \<not> same_id (rs ! j) recipe) \<Longrightarrow>
   upsert recipe rs = rs[i := recipe]"
  using findIndex_first [of i rs "\<lambda>r. strict_eq (get_prop r ''id'') (get_prop recipe ''id'')"]
  by (simp add: upsert_def same_id_def recipe_id_def Let_def)

lemma post_recipes_sessions:
  assumes "ordinary st (userId u)"
  shows "sessions (snd (post_recipes u recipe st)) =
     (sessions st)(userId u \<mapsto>
        \<lparr>recipes = upsert recipe (user_recipes st (userId u)),
         basket = user_basket st (userId u)\<rparr>)"
proof -
  from assms obtain st1 where
    "getUserSession (userId u) st =
       (Record \<lparr>recipes = user_recipes st (userId u), basket = user_basket st (userId u)\<rparr>,
        st1)"
    "sessions st1 =
       (sessions st)(userId u \<mapsto>
          \<lparr>recipes = user_recipes st (userId u), basket = user_basket st (userId u)\<rparr>)"
    by (rule getUserSession_ordinary)
  then show ?thesis
    by (simp add: post_recipes_def upsert_def Let_def saveSessions_def put_session_def)
qed

lemma post_recipes_state:
  assumes "ordinary st (userId u)"
  shows "sessions_file (snd (post_recipes u recipe st)) = sessions (snd (post_recipes u recipe st))
   \<and> users (snd (post_recipes u recipe st)) = users st
   \<and> inherited_basket (snd (post_recipes u recipe st)) = inherited_basket st"
proof -
  from assms obtain st1 where
    "getUserSession (userId u) st =
       (Record \<lparr>recipes = user_recipes st (userId u), basket = user_basket st (userId u)\<rparr>,
        st1)"
    "users st1 = users st" "inherited_basket st1 = inherited_basket st"
    by (rule getUserSession_ordinary)
  then show ?thesis
    by (simp add: post_recipes_def Let_def saveSessions_def put_session_def)
qed

lemma post_recipes_response:
  assumes "ordinary st (userId u)"
  shows "fst (post_recipes u recipe st) =
     Inr \<lparr>status = 200,
          body = Some (JObj [(''success'', JBool True), (''recipe'', json_of recipe)])\<rparr>"
proof -
  from assms obtain st1 where
    "getUserSession (userId u) st =
       (Record \<lparr>recipes = user_recipes st (userId u), basket = user_basket st (userId u)\<rparr>,
        st1)"
    by (rule getUserSession_ordinary)
  then show ?thesis
    by (simp add: post_recipes_def Let_def)
qed

lemma post_recipes_recipes:
  "ordinary st (userId u) \<Longrightarrow>
   user_recipes (snd (post_recipes u recipe st)) (userId u) =
     upsert recipe (user_recipes st (userId u))"
  by (simp add: user_recipes_def post_recipes_sessions)

lemma post_recipes_ordinary:
  "ordinary st (userId u) \<Longrightarrow> ordinary (snd (post_recipes u recipe st)) (userId u)"
  by (simp add: ordinary_def post_recipes_sessions)

lemma post_recipes_builtin:
  "builtin st (userId u) \<Longrightarrow> post_recipes u recipe st = (Inl TypeError, st)"
  by (simp add: post_recipes_def getUserSession_builtin)

text \<open>
  C4, as the code has it. The save route has no validation and never answers 400. Take a
  user id for which \<open>sessions[userId]\<close> is a record or missing. Then for every body, with
  or without an \<open>id\<close>, the route answers 200 with \<open>{success: true, recipe}\<close>, writes the
  table out, and leaves the other users, the credential table and the user's basket
  alone. In the user's list it replaces the first entry whose \<open>id\<close> is \<open>===\<close> to the
  body's (two missing ids are equal) and appends the body when there is none.
\<close>

theorem save_recipe_upserts:
  assumes "ordinary st (userId u)"
  shows
  "fst (post_recipes u recipe st) =
     Inr \<lparr>status = 200,
          body = Some (JObj [(''success'', JBool True), (''recipe'', json_of recipe)])\<rparr>
   \<and> sessions_file (snd (post_recipes u recipe st)) = sessions (snd (post_recipes u recipe st))
   \<and> users (snd (post_recipes u recipe st)) = users st
   \<and> user_basket (snd (post_recipes u recipe st)) (userId u) = user_basket st (userId u)
   \<and> (\<forall>uid. uid \<noteq> userId u \<longrightarrow>
        sessions (snd (post_recipes u recipe st)) uid = sessions st uid)
   \<and> ((\<forall>r \<in> set (user_recipes st (userId u)). \<not> same_id r recipe) \<longrightarrow>
        user_recipes (snd (post_recipes u recipe st)) (userId u) =
          user_recipes st (userId u) @ [recipe])
   \<and> (\<forall>i. i < length (user_recipes st (userId u)) \<and>
            same_id (user_recipes st (userId u) ! i) recipe \<and>
            (\<forall>j < i. \<not> same_id (user_recipes st (userId u) ! j) recipe) \<longrightarrow>
        user_recipes (snd (post_recipes u recipe st)) (userId u) =
          (user_recipes st (userId u))[i := recipe])"
proof (intro conjI allI impI)
  show "fst (post_recipes u recipe st) =
     Inr \<lparr>status = 200,
          body = Some (JObj [(''success'', JBool True), (''recipe'', json_of recipe)])\<rparr>"
    using assms by (rule post_recipes_response)
  show "sessions_file (snd (post_recipes u recipe st)) = sessions (snd (post_recipes u recipe st))"
    using assms by (simp add: post_recipes_state)
  show "users (snd (post_recipes u recipe st)) = users st"
    using assms by (simp add: post_recipes_state)
  show "user_basket (snd (post_recipes u recipe st)) (userId u) = user_basket st (userId u)"
    using assms by (simp add: user_basket_def post_recipes_sessions)
next
  fix uid
  assume "uid \<noteq> userId u"
  then show "sessions (snd (post_recipes u recipe st)) uid = sessions st uid"
    using assms by (simp add: post_recipes_sessions)
next
  assume "\<forall>r \<in> set (user_recipes st (userId u)). \<not> same_id r recipe"
  then show "user_recipes (snd (post_recipes u recipe st)) (userId u) =
      user_recipes st (userId u) @ [recipe]"
    using assms by (simp add: post_recipes_recipes upsert_append)
next
  fix i
  assume "i < length (user_recipes st (userId u)) \<and>
      same_id (user_recipes st (userId u) ! i) recipe \<and>
      (\<forall>j < i. \<not> same_id (user_recipes st (userId u) ! j) recipe)"
  then show "user_recipes (snd (post_recipes u recipe st)) (userId u) =
      (user_recipes st (userId u))[i := recipe]"
    using assms by (simp add: post_recipes_recipes upsert_replace)
qed

lemma alice_recipes: "user_recipes alice_server ''alice'' = [soup, cake]"
  by (simp add: user_recipes_def alice_server_def)

lemma alice_uid: "userId alice_claims = ''alice''"
  by (simp add: alice_claims_def claims_of_def)

lemma alice_ordinary: "ordinary alice_server (userId alice_claims)"
  by (simp add: ordinary_def alice_uid alice_server_def)

lemma demo_ordinary: "ordinary demo_server (userId alice_claims)"
  by (simp add: ordinary_def alice_uid demo_server_def lookup_session_def inherited_names_def)

lemma demo_ids:
  "recipe_id soup = Some (JStr ''r1'')" "recipe_id stew = Some (JStr ''r1'')"
  "recipe_id cake = Some (JStr ''r2'')" "recipe_id bread = None"
  "recipe_id tagged = Some (JArr [JNum 1])"
  by (simp_all add: recipe_id_def soup_def stew_def cake_def bread_def tagged_def)

theorem save_recipe_upserts_witness:
  "user_recipes (snd (post_recipes alice_claims bread alice_server)) ''alice'' =
     [soup, cake, bread]
   \<and> user_recipes (snd (post_recipes alice_claims stew alice_server)) ''alice'' = [stew, cake]
   \<and> sessions (snd (post_recipes alice_claims stew demo_server)) ''bob'' = None"
proof -
  note uid = alice_uid
  have fresh: "\<forall>r \<in> set (user_recipes alice_server (userId alice_claims)). \<not> same_id r bread"
    by (simp add: uid alice_recipes same_id_def demo_ids)
  have hit: "0 < length (user_recipes alice_server (userId alice_claims)) \<and>
      same_id (user_recipes alice_server (userId alice_claims) ! 0) stew \<and>
      (\<forall>j < 0. \<not> same_id (user_recipes alice_server (userId alice_claims) ! j) stew)"
    by (simp add: uid alice_recipes same_id_def demo_ids)
  have other: "''bob'' \<noteq> userId alice_claims \<and> sessions demo_server ''bob'' = None"
    by (simp add: uid demo_server_def)
  from save_recipe_upserts [OF alice_ordinary, of bread] fresh
  have 1: "user_recipes (snd (post_recipes alice_claims bread alice_server))
      (userId alice_claims) = user_recipes alice_server (userId alice_claims) @ [bread]"
    by blast
  from save_recipe_upserts [OF alice_ordinary, of stew] hit
  have 2: "user_recipes (snd (post_recipes alice_claims stew alice_server))
      (userId alice_claims) = (user_recipes alice_server (userId alice_claims))[0 := stew]"
    by blast
  from save_recipe_upserts [OF demo_ordinary, of stew] other
  have 3: "sessions (snd (post_recipes alice_claims stew demo_server)) ''bob'' =
      sessions demo_server ''bob''"
    by blast
  from 1 2 3 other show ?thesis
    by (simp add: uid alice_recipes)
qed

text \<open>
  C4, as the claim has it, fails: a body without an \<open>id\<close> is answered 200, not 400, and
  is appended to the user's list.
\<close>

theorem save_recipe_without_id:
  "recipe_id bread = None
   \<and> fst (post_recipes alice_claims bread alice_server) =
       Inr \<lparr>status = 200,
            body = Some (JObj [(''success'', JBool True),
                     (''recipe'', JObj [(''name'', JStr ''Bread'')])])\<rparr>
   \<and> user_recipes alice_server ''alice'' = [soup, cake]
   \<and> user_recipes (snd (post_recipes alice_claims bread alice_server)) ''alice'' =
       [soup, cake, bread]"
proof -
  note uid = alice_uid
  have "upsert bread [soup, cake] = [soup, cake, bread]"
    by (rule upsert_append [of "[soup, cake]" bread, simplified])
      (simp add: same_id_def demo_ids)
  then have "user_recipes (snd (post_recipes alice_claims bread alice_server)) ''alice'' =
       [soup, cake, bread]"
    using post_recipes_recipes [OF alice_ordinary, of bread]
    by (simp add: uid alice_recipes)
  moreover have "fst (post_recipes alice_claims bread alice_server) =
       Inr \<lparr>status = 200,
            body = Some (JObj [(''success'', JBool True),
                     (''recipe'', JObj [(''name'', JStr ''Bread'')])])\<rparr>"
    using post_recipes_response [OF alice_ordinary, of bread] by (simp add: bread_def)
  ultimately show ?thesis
    by (simp add: demo_ids alice_recipes)
qed

section \<open>Uniqueness of recipe ids\<close>

lemma strict_eq_json_eq: "strict_eq_json a b \<Longrightarrow> a = b"
  by (cases a; cases b) simp_all

lemma strict_eq_imp: "strict_eq x y \<Longrightarrow> x = y \<and> primitive y"
  by (cases x; cases y; cases "the x"; cases "the y") (simp_all add: strict_eq_json_eq)

lemma strict_eq_primitive: "primitive y \<Longrightarrow> strict_eq x y \<longleftrightarrow> x = y"
  by (cases x; cases y; cases "the x"; cases "the y") auto

lemma same_id_primitive:
  "primitive (recipe_id recipe) \<Longrightarrow> same_id r recipe \<longleftrightarrow> recipe_id r = recipe_id recipe"
  by (simp add: same_id_def strict_eq_primitive)

lemma upsert_cases:
  "(upsert recipe rs = rs @ [recipe] \<and> (\<forall>r \<in> set rs. \<not> same_id r recipe))
   \<or> (\<exists>i < length rs. upsert recipe rs = rs[i := recipe] \<and> same_id (rs ! i) recipe)"
proof (cases "findIndex (\<lambda>r. strict_eq (get_prop r ''id'') (get_prop recipe ''id'')) rs < 0")
  case True
  then have "\<forall>r \<in> set rs. \<not> same_id r recipe"
    by (simp add: findIndex_none same_id_def recipe_id_def)
  then show ?thesis by (simp add: upsert_append)
next
  case False
  then have "0 \<le> findIndex (\<lambda>r. strict_eq (get_prop r ''id'') (get_prop recipe ''id'')) rs"
    by simp
  from findIndex_found [OF this] False show ?thesis
    by (auto simp: upsert_def Let_def same_id_def recipe_id_def)
qed

lemma upsert_ids:
  assumes "primitive (recipe_id recipe)"
  shows "map recipe_id (upsert recipe rs) =
     (if recipe_id recipe \<in> set (map recipe_id rs) then map recipe_id rs
      else map recipe_id rs @ [recipe_id recipe])"
proof -
  from upsert_cases [of recipe rs] consider
      "upsert recipe rs = rs @ [recipe]" "\<forall>r \<in> set rs. \<not> same_id r recipe"
    | i where "i < length rs" "upsert recipe rs = rs[i := recipe]" "same_id (rs ! i) recipe"
    by blast
  then show ?thesis
  proof cases
    case 1
    with assms have "recipe_id recipe \<notin> set (map recipe_id rs)"
      by (auto simp: same_id_primitive)
    with 1 show ?thesis by simp
  next
    case 2
    with assms have eq: "recipe_id (rs ! i) = recipe_id recipe"
      by (simp add: same_id_primitive)
    with 2 have "recipe_id recipe \<in> set (map recipe_id rs)"
      by (metis length_map nth_map nth_mem)
    moreover from 2 eq have "map recipe_id (upsert recipe rs) = map recipe_id rs"
      by (simp add: map_update) (metis list_update_id nth_map)
    ultimately show ?thesis by simp
  qed
qed

lemma upsert_mem: "recipe \<in> set (upsert recipe rs)"
  using upsert_cases [of recipe rs] by (auto simp: set_update_memI)

lemma upsert_unique:
  "unique_ids rs \<Longrightarrow> primitive (recipe_id recipe) \<Longrightarrow> unique_ids (upsert recipe rs)"
  by (simp add: unique_ids_def upsert_ids)

lemma filter_unique:
  "distinct (map f xs) \<Longrightarrow> x \<in> set xs \<Longrightarrow> filter (\<lambda>y. f y = f x) xs = [x]"
proof (induction xs)
  case Nil
  then show ?case by simp
next
  case (Cons a xs)
  show ?case
  proof (cases "a = x")
    case True
    with Cons.prems have "f x \<notin> f ` set xs" by simp
    then have "\<forall>y \<in> set xs. f y \<noteq> f x" by (metis imageI)
    then have "filter (\<lambda>y. f y = f x) xs = []" by (simp add: filter_empty_conv)
    with True show ?thesis by simp
  next
    case False
    with Cons.prems have "x \<in> set xs" and "f a \<noteq> f x" by auto
    with Cons show ?thesis by simp
  qed
qed

lemma upsert_twice:
  assumes uniq: "unique_ids rs" and same: "same_id r1 r2"
  shows "filter (\<lambda>r. recipe_id r = recipe_id r2) (upsert r2 (upsert r1 rs)) = [r2]
     \<and> length (upsert r2 (upsert r1 rs)) = length (upsert r1 rs)
     \<and> unique_ids (upsert r2 (upsert r1 rs))"
proof -
  from same have ids: "recipe_id r1 = recipe_id r2" and p2: "primitive (recipe_id r2)"
    using strict_eq_imp [of "recipe_id r1" "recipe_id r2"] by (simp_all add: same_id_def)
  then have p1: "primitive (recipe_id r1)" by simp
  have u1: "unique_ids (upsert r1 rs)"
    using uniq p1 by (rule upsert_unique)
  have "recipe_id r2 \<in> set (map recipe_id (upsert r1 rs))"
  proof -
    have "recipe_id r1 \<in> recipe_id ` set (upsert r1 rs)"
      using upsert_mem [of r1 rs] by (rule imageI)
    with ids show ?thesis by simp
  qed
  then have same_ids: "map recipe_id (upsert r2 (upsert r1 rs)) = map recipe_id (upsert r1 rs)"
    by (simp add: upsert_ids [OF p2])
  then have "length (map recipe_id (upsert r2 (upsert r1 rs))) =
      length (map recipe_id (upsert r1 rs))"
    by simp
  then have len: "length (upsert r2 (upsert r1 rs)) = length (upsert r1 rs)"
    by simp
  have u2: "unique_ids (upsert r2 (upsert r1 rs))"
    using u1 p2 by (rule upsert_unique)
  then have "filter (\<lambda>r. recipe_id r = recipe_id r2) (upsert r2 (upsert r1 rs)) = [r2]"
    unfolding unique_ids_def by (rule filter_unique) (rule upsert_mem)
  with len u2 show ?thesis by simp
qed


text \<open>
  C5, as the code has it. Take a user id for which \<open>sessions[userId]\<close> is a record or
  missing, and a recipe list whose ids are pairwise different. A save of a body whose id
  is a JSON primitive (a string, as the data model has it) or is missing keeps the ids
  pairwise different. Saving two bodies one after the other whose ids are \<open>===\<close> leaves
  exactly one entry with that id, the second body, and the second save adds no entry.
\<close>

theorem save_keeps_ids_unique:
  assumes "ordinary st (userId u)"
  shows
  "(unique_ids (user_recipes st (userId u)) \<and> primitive (recipe_id recipe) \<longrightarrow>
      unique_ids (user_recipes (snd (post_recipes u recipe st)) (userId u)))
   \<and> (unique_ids (user_recipes st (userId u)) \<and> same_id r1 r2 \<longrightarrow>
        filter (\<lambda>r. recipe_id r = recipe_id r2)
          (user_recipes (snd (post_recipes u r2 (snd (post_recipes u r1 st)))) (userId u)) = [r2]
        \<and> length (user_recipes (snd (post_recipes u r2 (snd (post_recipes u r1 st)))) (userId u)) =
          length (user_recipes (snd (post_recipes u r1 st)) (userId u))
        \<and> unique_ids
          (user_recipes (snd (post_recipes u r2 (snd (post_recipes u r1 st)))) (userId u)))"
  using assms post_recipes_ordinary [OF assms, of r1]
  by (simp add: post_recipes_recipes upsert_unique upsert_twice)

theorem save_keeps_ids_unique_witness:
  "unique_ids (user_recipes (snd (post_recipes alice_claims bread alice_server)) ''alice'')
   \<and> filter (\<lambda>r. recipe_id r = Some (JStr ''r1''))
        (user_recipes (snd (post_recipes alice_claims stew
           (snd (post_recipes alice_claims soup alice_server)))) ''alice'') = [stew]
   \<and> length (user_recipes (snd (post_recipes alice_claims stew
           (snd (post_recipes alice_claims soup alice_server)))) ''alice'') = 2"
proof -
  note uid = alice_uid
  have uniq: "unique_ids (user_recipes alice_server (userId alice_claims))"
    by (simp add: uid alice_recipes unique_ids_def demo_ids)
  have prim: "primitive (recipe_id bread)"
    by (simp add: demo_ids)
  have same: "same_id soup stew"
    by (simp add: same_id_def demo_ids)
  have once: "user_recipes (snd (post_recipes alice_claims soup alice_server)) ''alice'' =
      [soup, cake]"
    using post_recipes_recipes [OF alice_ordinary, of soup]
      upsert_replace [of 0 "[soup, cake]" soup]
    by (simp add: uid alice_recipes same_id_def demo_ids)
  from save_keeps_ids_unique [OF alice_ordinary, of bread soup stew] uniq prim same
  show ?thesis
    by (simp add: uid demo_ids once)
qed

text \<open>
  C5, as the claim has it, fails: an id that is an array or an object is never \<open>===\<close> to a
  stored id, so two saves of bodies with the same such id append two entries, and the
  ids of the list are no longer pairwise different.
\<close>

theorem save_object_id_twice:
  "recipe_id tagged = recipe_id relabelled
   \<and> unique_ids (user_recipes alice_server ''alice'')
   \<and> user_recipes
       (snd (post_recipes alice_claims relabelled
          (snd (post_recipes alice_claims tagged alice_server)))) ''alice'' =
       [soup, cake, tagged, relabelled]
   \<and> \<not> unique_ids
       (user_recipes
          (snd (post_recipes alice_claims relabelled
             (snd (post_recipes alice_claims tagged alice_server)))) ''alice'')"
proof -
  note uid = alice_uid
  have rid: "recipe_id relabelled = Some (JArr [JNum 1])"
    by (simp add: recipe_id_def relabelled_def)
  have "upsert tagged [soup, cake] = [soup, cake, tagged]"
    by (rule upsert_append [of "[soup, cake]" tagged, simplified])
      (simp add: same_id_def demo_ids)
  then have one: "user_recipes (snd (post_recipes alice_claims tagged alice_server)) ''alice'' =
      [soup, cake, tagged]"
    using post_recipes_recipes [OF alice_ordinary, of tagged] by (simp add: uid alice_recipes)
  have "upsert relabelled [soup, cake, tagged] = [soup, cake, tagged, relabelled]"
    by (rule upsert_append [of "[soup, cake, tagged]" relabelled, simplified])
      (simp add: same_id_def demo_ids rid)
  then have two: "user_recipes
       (snd (post_recipes alice_claims relabelled
          (snd (post_recipes alice_claims tagged alice_server)))) ''alice'' =
       [soup, cake, tagged, relabelled]"
    using post_recipes_recipes
      [OF post_recipes_ordinary [OF alice_ordinary, of tagged], of relabelled] one
    by (simp add: uid)
  show ?thesis
    unfolding two by (simp add: alice_recipes unique_ids_def demo_ids rid)
qed

section \<open>Deleting a recipe\<close>

lemma delete_recipe_sessions:
  assumes "ordinary st (userId u)"
  shows "sessions (snd (delete_recipe u rid st)) =
     (sessions st)(userId u \<mapsto>
        \<lparr>recipes = filter (\<lambda>r. recipe_id r \<noteq> Some (JStr rid)) (user_recipes st (userId u)),
         basket = user_basket st (userId u)\<rparr>)"
proof -
  from assms obtain st1 where
    "getUserSession (userId u) st =
       (Record \<lparr>recipes = user_recipes st (userId u), basket = user_basket st (userId u)\<rparr>,
        st1)"
    "sessions st1 =
       (sessions st)(userId u \<mapsto>
          \<lparr>recipes = user_recipes st (userId u), basket = user_basket st (userId u)\<rparr>)"
    by (rule getUserSession_ordinary)
  moreover have "strict_eq x (Some (JStr rid)) \<longleftrightarrow> x = Some (JStr rid)" for x :: "'a jsval"
    by (rule strict_eq_primitive) simp
  ultimately show ?thesis
    by (simp add: delete_recipe_def Let_def saveSessions_def put_session_def recipe_id_def)
qed

lemma delete_recipe_recipes:
  "ordinary st (userId u) \<Longrightarrow>
   user_recipes (snd (delete_recipe u rid st)) (userId u) =
     filter (\<lambda>r. recipe_id r \<noteq> Some (JStr rid)) (user_recipes st (userId u))"
  by (simp add: user_recipes_def delete_recipe_sessions)

lemma delete_recipe_response:
  assumes "ordinary st (userId u)"
  shows "fst (delete_recipe u rid st) = Inr \<lparr>status = 200, body = success_body\<rparr>"
proof -
  from assms obtain st1 where
    "getUserSession (userId u) st =
       (Record \<lparr>recipes = user_recipes st (userId u), basket = user_basket st (userId u)\<rparr>,
        st1)"
    by (rule getUserSession_ordinary)
  then show ?thesis by (simp add: delete_recipe_def Let_def)
qed

lemma delete_recipe_saved:
  assumes "ordinary st (userId u)"
  shows "sessions_file (snd (delete_recipe u rid st)) = sessions (snd (delete_recipe u rid st))"
proof -
  from assms obtain st1 where
    "getUserSession (userId u) st =
       (Record \<lparr>recipes = user_recipes st (userId u), basket = user_basket st (userId u)\<rparr>,
        st1)"
    by (rule getUserSession_ordinary)
  then show ?thesis by (simp add: delete_recipe_def Let_def saveSessions_def put_session_def)
qed

lemma delete_recipe_again:
  "ordinary st (userId u) \<Longrightarrow>
   delete_recipe u rid (snd (delete_recipe u rid st)) = delete_recipe u rid st"
  by (auto simp: ordinary_def delete_recipe_def Let_def getUserSession_def lookup_session_def
      saveSessions_def put_session_def split: option.splits)

lemma delete_recipe_builtin:
  "builtin st (userId u) \<Longrightarrow> delete_recipe u rid st = (Inl TypeError, st)"
  by (simp add: delete_recipe_def getUserSession_builtin)

text \<open>
  C7. For a user id for which \<open>sessions[userId]\<close> is a record or missing, deleting a
  recipe answers 200 \<open>{success: true}\<close> and writes the table out. The user's list afterwards
  is the list before without the entries whose id is the given one, in the same order;
  no entry with that id is left. When no entry has the id, the list is the same as
  before. Deleting again gives the same response and the same state as deleting once.
  But under a user id that the table inherits from \<open>Object.prototype\<close>, such as
  \<open>constructor\<close>, the session is a built-in member without \<open>recipes\<close>: the handler throws
  a \<open>TypeError\<close> and sends no response.
\<close>

theorem delete_recipe_idempotent:
  "(ordinary st (userId u) \<longrightarrow>
      fst (delete_recipe u rid st) = Inr \<lparr>status = 200, body = success_body\<rparr>
      \<and> sessions_file (snd (delete_recipe u rid st)) = sessions (snd (delete_recipe u rid st))
      \<and> user_recipes (snd (delete_recipe u rid st)) (userId u) =
          filter (\<lambda>r. recipe_id r \<noteq> Some (JStr rid)) (user_recipes st (userId u))
      \<and> (\<forall>r \<in> set (user_recipes (snd (delete_recipe u rid st)) (userId u)).
            recipe_id r \<noteq> Some (JStr rid))
      \<and> ((\<forall>r \<in> set (user_recipes st (userId u)). recipe_id r \<noteq> Some (JStr rid)) \<longrightarrow>
           user_recipes (snd (delete_recipe u rid st)) (userId u) = user_recipes st (userId u))
      \<and> delete_recipe u rid (snd (delete_recipe u rid st)) =
          (Inr \<lparr>status = 200, body = success_body\<rparr>, snd (delete_recipe u rid st)))
   \<and> (builtin st (userId u) \<longrightarrow> delete_recipe u rid st = (Inl TypeError, st))"
proof (intro conjI impI)
  assume o: "ordinary st (userId u)"
  show "delete_recipe u rid (snd (delete_recipe u rid st)) =
       (Inr \<lparr>status = 200, body = success_body\<rparr>, snd (delete_recipe u rid st))"
    using delete_recipe_response [OF o, of rid]
    by (simp add: delete_recipe_again [OF o] prod_eq_iff)
  show "fst (delete_recipe u rid st) = Inr \<lparr>status = 200, body = success_body\<rparr>"
    using o by (rule delete_recipe_response)
  show "sessions_file (snd (delete_recipe u rid st)) = sessions (snd (delete_recipe u rid st))"
    using o by (rule delete_recipe_saved)
  show "user_recipes (snd (delete_recipe u rid st)) (userId u) =
          filter (\<lambda>r. recipe_id r \<noteq> Some (JStr rid)) (user_recipes st (userId u))"
    using o by (rule delete_recipe_recipes)
  show "\<forall>r \<in> set (user_recipes (snd (delete_recipe u rid st)) (userId u)).
            recipe_id r \<noteq> Some (JStr rid)"
    using o by (simp add: delete_recipe_recipes)
next
  assume "ordinary st (userId u)"
    and "\<forall>r \<in> set (user_recipes st (userId u)). recipe_id r \<noteq> Some (JStr rid)"
  then show "user_recipes (snd (delete_recipe u rid st)) (userId u) = user_recipes st (userId u)"
    by (simp add: delete_recipe_recipes)
next
  assume "builtin st (userId u)"
  then show "delete_recipe u rid st = (Inl TypeError, st)"
    by (rule delete_recipe_builtin)
qed

theorem delete_recipe_idempotent_witness:
  "delete_recipe (claims_of ''constructor'') ''r1'' alice_server = (Inl TypeError, alice_server)
   \<and> user_recipes (snd (delete_recipe alice_claims ''missing'' alice_server)) ''alice'' =
     [soup, cake]
   \<and> user_recipes (snd (delete_recipe alice_claims ''r1'' alice_server)) ''alice'' = [cake]
   \<and> fst (delete_recipe alice_claims ''missing'' alice_server) =
       Inr \<lparr>status = 200, body = success_body\<rparr>"
proof -
  note uid = alice_uid
  have inherited: "builtin alice_server (userId (claims_of ''constructor''))"
    by (simp add: builtin_def claims_of_def alice_server_def inherited_names_def)
  have none: "\<forall>r \<in> set (user_recipes alice_server (userId alice_claims)).
      recipe_id r \<noteq> Some (JStr ''missing'')"
    by (simp add: uid alice_recipes demo_ids)
  from delete_recipe_idempotent [of alice_server "claims_of ''constructor''" "''r1''"] inherited
  have 1: "delete_recipe (claims_of ''constructor'') ''r1'' alice_server =
      (Inl TypeError, alice_server)"
    by blast
  from delete_recipe_idempotent [of alice_server alice_claims "''missing''"] alice_ordinary none
  have 2: "user_recipes (snd (delete_recipe alice_claims ''missing'' alice_server))
        (userId alice_claims) = user_recipes alice_server (userId alice_claims)
      \<and> fst (delete_recipe alice_claims ''missing'' alice_server) =
        Inr \<lparr>status = 200, body = success_body\<rparr>"
    by blast
  from delete_recipe_idempotent [of alice_server alice_claims "''r1''"] alice_ordinary
  have 3: "user_recipes (snd (delete_recipe alice_claims ''r1'' alice_server))
        (userId alice_claims) =
      filter (\<lambda>r. recipe_id r \<noteq> Some (JStr ''r1''))
        (user_recipes alice_server (userId alice_claims))"
    by blast
  from 1 2 3 show ?thesis
    by (simp add: uid alice_recipes demo_ids)
qed

section \<open>Basket\<close>

lemma get_basket_ordinary:
  assumes "ordinary st (userId u)"
  shows "fst (get_basket u st) = Inr \<lparr>status = 200, body = user_basket st (userId u)\<rparr>"
proof -
  from assms obtain st1 where
    "getUserSession (userId u) st =
       (Record \<lparr>recipes = user_recipes st (userId u), basket = user_basket st (userId u)\<rparr>,
        st1)"
    by (rule getUserSession_ordinary)
  then show ?thesis by (simp add: get_basket_def)
qed

lemma get_basket_builtin:
  "builtin st (userId u) \<Longrightarrow>
   get_basket u st = (Inr \<lparr>status = 200, body = builtin_basket st (userId u)\<rparr>, st)"
  by (simp add: get_basket_def getUserSession_builtin)

lemma post_basket_sessions:
  assumes "ordinary st (userId u)"
  shows "sessions (snd (post_basket u b st)) =
     (sessions st)(userId u \<mapsto>
        \<lparr>recipes = user_recipes st (userId u), basket = body_basket st b\<rparr>)
     \<and> inherited_basket (snd (post_basket u b st)) = inherited_basket st
     \<and> fst (post_basket u b st) = Inr \<lparr>status = 200, body = success_body\<rparr>"
proof -
  from assms obtain st1 where
    "getUserSession (userId u) st =
       (Record \<lparr>recipes = user_recipes st (userId u), basket = user_basket st (userId u)\<rparr>,
        st1)"
    "sessions st1 =
       (sessions st)(userId u \<mapsto>
          \<lparr>recipes = user_recipes st (userId u), basket = user_basket st (userId u)\<rparr>)"
    "inherited_basket st1 = inherited_basket st"
    by (rule getUserSession_ordinary)
  moreover from this have "proto_basket st1 = proto_basket st"
    by (simp add: proto_basket_def)
  then have "body_basket st1 b = body_basket st b"
    by (simp add: body_basket_def split: option.splits)
  ultimately show ?thesis
    by (simp add: post_basket_def set_basket_def saveSessions_def put_session_def)
qed

lemma post_basket_builtin:
  "builtin st (userId u) \<Longrightarrow>
   post_basket u b st =
     (Inr \<lparr>status = 200, body = success_body\<rparr>,
      saveSessions (put_inherited (userId u) (body_basket st b) st))"
  by (simp add: post_basket_def set_basket_def getUserSession_builtin)

lemma post_basket_echo:
  assumes same: "userId u' = userId u" and ns: "\<not> stray st (userId u)"
  shows "fst (post_basket u' b st) = Inr \<lparr>status = 200, body = success_body\<rparr>
     \<and> fst (get_basket u (snd (post_basket u' b st))) =
         Inr \<lparr>status = 200, body = body_basket st b\<rparr>
     \<and> \<not> stray (snd (post_basket u' b st)) (userId u)"
proof -
  from lookup_cases [of st "userId u"] ns
  consider "ordinary st (userId u')" | "builtin st (userId u')"
    using same by auto
  then show ?thesis
  proof cases
    case 1
    note p = post_basket_sessions [OF 1, of b]
    from p have own: "sessions (snd (post_basket u' b st)) (userId u) \<noteq> None"
      by (simp add: same)
    then have o: "ordinary (snd (post_basket u' b st)) (userId u)"
      by (simp add: ordinary_def)
    from own have ns': "\<not> stray (snd (post_basket u' b st)) (userId u)"
      by (simp add: stray_def)
    from p have "user_basket (snd (post_basket u' b st)) (userId u) = body_basket st b"
      by (simp add: user_basket_def same)
    with p o ns' show ?thesis
      by (simp add: get_basket_ordinary)
  next
    case 2
    from 2 have b2: "builtin (saveSessions (put_inherited (userId u') (body_basket st b) st))
        (userId u)"
      by (simp add: builtin_def saveSessions_def put_inherited_def same)
    have "builtin_basket (saveSessions (put_inherited (userId u') (body_basket st b) st))
        (userId u) = body_basket st b"
      by (simp add: builtin_basket_def saveSessions_def put_inherited_def same)
    with 2 b2 show ?thesis
      by (simp add: post_basket_builtin get_basket_builtin stray_def builtin_def)
  qed
qed

lemma body_basket_own: "get_prop b ''basket'' = Some x \<Longrightarrow> body_basket st b = Some x"
  by (simp add: body_basket_def)

text \<open>
  C8. Take a user id for which \<open>sessions[userId]\<close> is not a value that the table inherits
  under the key \<open>basket\<close>. Replacing the basket stores the list that the body carries as
  \<open>basket\<close> and keeps nothing of the old contents: the basket read back after a replace
  with the list \<open>xs\<close> is \<open>xs\<close> (so \<open>[]\<close> after \<open>{basket: []}\<close>), and after a replace with
  \<open>xs\<close> followed by a replace with \<open>ys\<close> it is exactly \<open>ys\<close>. The three requests may carry
  different tokens of the same user.
\<close>

theorem replace_basket_wholesale:
  assumes "userId u1 = userId u" and "userId u2 = userId u"
    and "get_prop b1 ''basket'' = Some (JArr xs)"
    and "get_prop b2 ''basket'' = Some (JArr ys)"
    and "\<not> stray st (userId u)"
  shows "fst (post_basket u1 b1 st) = Inr \<lparr>status = 200, body = success_body\<rparr>
     \<and> fst (get_basket u (snd (post_basket u1 b1 st))) =
           Inr \<lparr>status = 200, body = Some (JArr xs)\<rparr>
     \<and> fst (get_basket u (snd (post_basket u2 b2 (snd (post_basket u1 b1 st))))) =
           Inr \<lparr>status = 200, body = Some (JArr ys)\<rparr>"
proof -
  note first = post_basket_echo [OF assms(1) assms(5), of b1]
  then have "\<not> stray (snd (post_basket u1 b1 st)) (userId u)" by simp
  note second = post_basket_echo [OF assms(2) this, of b2]
  from first second show ?thesis
    by (simp add: body_basket_own [OF assms(3)] body_basket_own [OF assms(4)])
qed


lemma alice_not_stray: "\<not> stray alice_server (userId alice_claims)"
  by (simp add: stray_def alice_uid)

theorem replace_basket_wholesale_witness:
  "fst (get_basket alice_claims
      (snd (post_basket alice_claims (Obj [(''basket'', JArr [])]) alice_server))) =
     Inr \<lparr>status = 200, body = Some (JArr [])\<rparr>
   \<and> fst (get_basket alice_claims
      (snd (post_basket (alice_claims\<lparr>iat := 5\<rparr>) (Obj [(''basket'', JArr [JStr ''c''])])
         (snd (post_basket alice_claims
            (Obj [(''note'', JNull), (''basket'', JArr [JStr ''a'', JStr ''b''])])
            alice_server))))) =
     Inr \<lparr>status = 200, body = Some (JArr [JStr ''c''])\<rparr>"
proof -
  have same: "userId alice_claims = userId alice_claims"
    "userId (alice_claims\<lparr>iat := 5\<rparr>) = userId alice_claims"
    by simp_all
  have empty: "get_prop (Obj [(''basket'', JArr [])] :: int body) ''basket'' = Some (JArr [])"
    by simp
  have ab: "get_prop (Obj [(''note'', JNull), (''basket'', JArr [JStr ''a'', JStr ''b''])] :: int body)
      ''basket'' = Some (JArr [JStr ''a'', JStr ''b''])"
    by simp
  have c: "get_prop (Obj [(''basket'', JArr [JStr ''c''])] :: int body) ''basket'' =
      Some (JArr [JStr ''c''])"
    by simp
  from replace_basket_wholesale [OF same empty c alice_not_stray]
    replace_basket_wholesale [OF same ab c alice_not_stray]
  show ?thesis by simp
qed

lemma stray_primitive:
  assumes "stray st (userId u)" and "proto_basket st = Some v" and "\<not> is_object v"
  shows "post_basket u b st = (Inr \<lparr>status = 200, body = success_body\<rparr>, saveSessions st)"
    and "delete_basket u st = (Inr \<lparr>status = 200, body = success_body\<rparr>, saveSessions st)"
    and "get_basket u st = (Inr \<lparr>status = 200, body = Some v\<rparr>, st)"
proof -
  from getUserSession_stray [OF assms(1)] assms(2)
  have g: "getUserSession (userId u) st = (Stray v, st)"
    by auto
  with assms(3) show
    "post_basket u b st = (Inr \<lparr>status = 200, body = success_body\<rparr>, saveSessions st)"
    "delete_basket u st = (Inr \<lparr>status = 200, body = success_body\<rparr>, saveSessions st)"
    by (simp_all add: post_basket_def delete_basket_def set_basket_def)
  from g assms(2,3) show "get_basket u st = (Inr \<lparr>status = 200, body = Some v\<rparr>, st)"
    by (simp add: get_basket_def)
qed

text \<open>
  C8 fails where the table inherits a \<open>basket\<close>. A replace under the user id \<open>__proto__\<close>
  assigns to \<open>Object.prototype.basket\<close>. From then on \<open>sessions['basket']\<close> is that value;
  when it is a string, the session of the user \<open>basket\<close> is a primitive, the assignment
  \<open>session.basket = ...\<close> of a later replace is dropped, and the read returns the string
  again, not the list that was sent.
\<close>

theorem replace_basket_on_inherited_string:
  "fst (post_basket (claims_of ''__proto__'') (Obj [(''basket'', JStr ''milk'')]) demo_server) =
     Inr \<lparr>status = 200, body = success_body\<rparr>
   \<and> fst (post_basket (claims_of ''basket'') (Obj [(''basket'', JArr [JStr ''eggs''])])
        (snd (post_basket (claims_of ''__proto__'') (Obj [(''basket'', JStr ''milk'')])
           demo_server))) =
     Inr \<lparr>status = 200, body = success_body\<rparr>
   \<and> fst (get_basket (claims_of ''basket'')
        (snd (post_basket (claims_of ''basket'') (Obj [(''basket'', JArr [JStr ''eggs''])])
           (snd (post_basket (claims_of ''__proto__'') (Obj [(''basket'', JStr ''milk'')])
              demo_server))))) =
     Inr \<lparr>status = 200, body = Some (JStr ''milk'')\<rparr>"
proof -
  let ?milk = "Obj [(''basket'', JStr ''milk'')] :: int body"
  let ?eggs = "Obj [(''basket'', JArr [JStr ''eggs''])] :: int body"
  let ?st1 = "saveSessions (put_inherited ''__proto__'' (Some (JStr ''milk'')) demo_server)"
  have b: "builtin demo_server (userId (claims_of ''__proto__''))"
    by (simp add: builtin_def claims_of_def demo_server_def inherited_names_def)
  have first: "post_basket (claims_of ''__proto__'') ?milk demo_server =
      (Inr \<lparr>status = 200, body = success_body\<rparr>, ?st1)"
    using post_basket_builtin [OF b, of ?milk]
    by (simp add: body_basket_def claims_of_def)
  have p1: "proto_basket ?st1 = Some (JStr ''milk'')"
    by (simp add: proto_basket_def saveSessions_def put_inherited_def)
  have p2: "proto_basket (saveSessions ?st1) = Some (JStr ''milk'')"
    by (simp add: proto_basket_def saveSessions_def put_inherited_def)
  have none: "sessions ?st1 ''basket'' = None" "sessions (saveSessions ?st1) ''basket'' = None"
    by (simp_all add: saveSessions_def put_inherited_def demo_server_def)
  have s1: "stray ?st1 (userId (claims_of ''basket''))"
    by (simp add: stray_def p1 none claims_of_def inherited_names_def)
  have s2: "stray (saveSessions ?st1) (userId (claims_of ''basket''))"
    by (simp add: stray_def p2 none claims_of_def inherited_names_def)
  have second: "post_basket (claims_of ''basket'') ?eggs ?st1 =
      (Inr \<lparr>status = 200, body = success_body\<rparr>, saveSessions ?st1)"
    by (rule stray_primitive(1) [OF s1 p1]) simp
  have third: "get_basket (claims_of ''basket'') (saveSessions ?st1) =
      (Inr \<lparr>status = 200, body = Some (JStr ''milk'')\<rparr>, saveSessions ?st1)"
    by (rule stray_primitive(3) [OF s2 p2]) simp
  show ?thesis
    by (simp add: first second third)
qed










section \<open>The verify route\<close>




end
